theory Spec2Isabelle
  imports Main "HOL-Library.Sublist"
begin

section \<open>JavaScript values shared by the models\<close>

text \<open>
  A value that a rejected promise or a \<^verbatim>\<open>throw\<close> carries. The sources look at it in
  two ways only: \<^verbatim>\<open>err instanceof Error ? err.message : fallback\<close> and
  \<^verbatim>\<open>err.message || fallback\<close>. \<open>Error m\<close> is an \<^verbatim>\<open>Error\<close> object with message \<open>m\<close>;
  \<open>NonError mo\<close> is any other thrown value except \<^verbatim>\<open>null\<close> and \<^verbatim>\<open>undefined\<close>, with its
  \<^verbatim>\<open>message\<close> property when it has one (a text); \<open>Nullish\<close> is a thrown \<^verbatim>\<open>null\<close> or
  \<^verbatim>\<open>undefined\<close>, on which reading \<^verbatim>\<open>.message\<close> throws a TypeError.
\<close>

datatype js_exn = Error string | NonError "string option" | Nullish

text \<open>A handle to one booted sandbox; every boot yields its own handle.\<close>

datatype webcontainer = WebContainer nat

text \<open>\<^verbatim>\<open>String.prototype.split(sep)\<close> for a one-character separator: the pieces between
  the separators, in order; the empty string gives one empty piece.\<close>

fun split_pieces :: "char \<Rightarrow> string \<Rightarrow> string \<times> string list" where
  "split_pieces c [] = ([], [])"
| "split_pieces c (x # xs) =
     (let (p, ps) = split_pieces c xs
      in if x = c then ([], p # ps) else (x # p, ps))"

definition split_js :: "char \<Rightarrow> string \<Rightarrow> string list" where
  "split_js c s = (let (p, ps) = split_pieces c s in p # ps)"

text \<open>\<^verbatim>\<open>Array.prototype.join(sep)\<close>.\<close>

fun join_js :: "string \<Rightarrow> string list \<Rightarrow> string" where
  "join_js sep [] = []"
| "join_js sep [x] = x"
| "join_js sep (x # y # ys) = x @ sep @ join_js sep (y # ys)"

section \<open>The runtime session manager: hooks/useWebContainer.ts\<close>

text \<open>
  The state of one mounted \<^verbatim>\<open>useWebContainer\<close> hook: its five React state cells, the
  two refs (\<^verbatim>\<open>isTornDown.current\<close>, \<^verbatim>\<open>isInitializing.current\<close>), the two variables of
  the effect's closure (\<^verbatim>\<open>mounted\<close>, \<^verbatim>\<open>containerRef\<close>), and what the hook has done to the
  outside: the \<^verbatim>\<open>teardown()\<close> calls already made, in order, and the timers set with
  \<^verbatim>\<open>setTimeout\<close> that have not fired yet (delay in milliseconds, and the handle the
  timer's callback tears down). The effect has an empty dependency list, so one closure
  exists per mounted hook.
\<close>

record hook_state =
  serverUrl :: "string option"
  isLoading :: bool
  error :: "string option"
  instance' :: "webcontainer option"
  isReady :: bool
  isTornDown_current :: bool
  isInitializing_current :: bool
  mounted :: bool
  containerRef :: "webcontainer option"
  teardownCalls :: "webcontainer list"
  pendingTimers :: "(nat \<times> webcontainer) list"

definition useWebContainer_initial :: hook_state where
  "useWebContainer_initial =
     \<lparr> serverUrl = None, isLoading = True, error = None, instance' = None,
       isReady = False, isTornDown_current = False, isInitializing_current = False,
       mounted = True, containerRef = None, teardownCalls = [], pendingTimers = [] \<rparr>"

text \<open>
  \<^verbatim>\<open>initializeWebContainer\<close> up to its \<^verbatim>\<open>await WebContainer.boot()\<close>: the guard, then
  the in-flight flag is set and the boot is started.
\<close>

definition initializeWebContainer_start :: "hook_state \<Rightarrow> hook_state" where
  "initializeWebContainer_start s =
     (if isInitializing_current s \<or> isTornDown_current s then s
      else s\<lparr>isInitializing_current := True\<rparr>)"

text \<open>
  The rest of \<^verbatim>\<open>initializeWebContainer\<close>, run when the boot settles: \<open>Inr w\<close> is a
  booted handle, \<open>Inl e\<close> a rejection. The \<^verbatim>\<open>finally\<close> block clears the in-flight flag
  on each path. A \<^verbatim>\<open>teardown()\<close> that throws is caught and logged; the call has been
  made either way.
\<close>

definition initializeWebContainer_resume :: "js_exn + webcontainer \<Rightarrow> hook_state \<Rightarrow> hook_state" where
  "initializeWebContainer_resume r s =
     (case r of
        Inr w \<Rightarrow>
          (if \<not> mounted s \<or> isTornDown_current s
           then s\<lparr>teardownCalls := teardownCalls s @ [w], isInitializing_current := False\<rparr>
           else s\<lparr>containerRef := Some w, instance' := Some w, isReady := True,
                  isLoading := False, isInitializing_current := False\<rparr>)
      | Inl e \<Rightarrow>
          (if mounted s
           then s\<lparr>error := Some (case e of Error m \<Rightarrow> m
                                   | _ \<Rightarrow> ''Failed to initialize WebContainer''),
                  isLoading := False, isInitializing_current := False\<rparr>
           else s\<lparr>isInitializing_current := False\<rparr>))"

text \<open>The function the effect returns, run when the component unmounts.\<close>

definition effect_cleanup :: "hook_state \<Rightarrow> hook_state" where
  "effect_cleanup s =
     (let s1 = s\<lparr>mounted := False\<rparr>
      in case containerRef s1 of
           None \<Rightarrow> s1
         | Some w \<Rightarrow>
             (if \<not> isTornDown_current s1
              then s1\<lparr>isTornDown_current := True,
                      pendingTimers := pendingTimers s1 @ [(100, w)]\<rparr>
              else s1))"

text \<open>The oldest pending timer fires: its callback runs \<^verbatim>\<open>containerRef?.teardown()\<close>.\<close>

definition timer_fired :: "hook_state \<Rightarrow> hook_state" where
  "timer_fired s =
     (case pendingTimers s of
        [] \<Rightarrow> s
      | (d, w) # ts \<Rightarrow> s\<lparr>pendingTimers := ts, teardownCalls := teardownCalls s @ [w]\<rparr>)"

definition destroy :: "hook_state \<Rightarrow> hook_state" where
  "destroy s =
     (case instance' s of
        None \<Rightarrow> s
      | Some w \<Rightarrow>
          (if \<not> isTornDown_current s
           then s\<lparr>isTornDown_current := True, teardownCalls := teardownCalls s @ [w],
                  instance' := None, serverUrl := None, isReady := False\<rparr>
           else s))"

text \<open>
  The sandbox's file system is outside the repository: what \<^verbatim>\<open>fs.mkdir\<close> and
  \<^verbatim>\<open>fs.writeFile\<close> answer is a parameter (\<open>Inl e\<close>: the promise rejects with \<open>e\<close>), and
  the calls made are returned in order. \<open>Mkdir p True\<close> is
  \<^verbatim>\<open>mkdir(p, { recursive: true })\<close>.
\<close>

datatype fs_call = Mkdir string bool | WriteFile string string

record fs_answers =
  mkdir_answer :: "string \<Rightarrow> js_exn + unit"
  writeFile_answer :: "string \<Rightarrow> string \<Rightarrow> js_exn + unit"

definition write_failure :: "string \<Rightarrow> js_exn \<Rightarrow> js_exn" where
  "write_failure path err =
     Error (''Failed to write file at '' @ path @ '': '' @
            (case err of Error m \<Rightarrow> m | _ \<Rightarrow> ''Failed to write file''))"

definition folderPath_of :: "string \<Rightarrow> string" where
  "folderPath_of path = join_js ''/'' (butlast (split_js CHR ''/'' path))"

definition writeFileSync ::
  "fs_answers \<Rightarrow> string \<Rightarrow> string \<Rightarrow> hook_state \<Rightarrow> (js_exn + unit) \<times> fs_call list" where
  "writeFileSync fs path content s =
     (if instance' s = None \<or> isTornDown_current s
      then (Inl (Error ''WebContainer instance is not available''), [])
      else
        (let folderPath = folderPath_of path;
             made = (if folderPath \<noteq> [] then [Mkdir folderPath True] else []);
             made_ok = (if folderPath \<noteq> [] then mkdir_answer fs folderPath else Inr ())
         in case made_ok of
              Inl err \<Rightarrow> (Inl (write_failure path err), made)
            | Inr u \<Rightarrow>
                (case writeFile_answer fs path content of
                   Inl err \<Rightarrow> (Inl (write_failure path err), made @ [WriteFile path content])
                 | Inr u' \<Rightarrow> (Inr (), made @ [WriteFile path content]))))"

text \<open>What can happen to a mounted hook, and a run of such events in order. The
  continuation of the boot exists exactly while the in-flight flag is set.\<close>

datatype hook_event =
    Initialize
  | BootSettled "js_exn + webcontainer"
  | Unmount
  | TimerFired
  | Destroy

fun hook_step :: "hook_event \<Rightarrow> hook_state \<Rightarrow> hook_state" where
  "hook_step Initialize s = initializeWebContainer_start s"
| "hook_step (BootSettled r) s =
     (if isInitializing_current s then initializeWebContainer_resume r s else s)"
| "hook_step Unmount s = effect_cleanup s"
| "hook_step TimerFired s = timer_fired s"
| "hook_step Destroy s = destroy s"

fun hook_run :: "hook_event list \<Rightarrow> hook_state \<Rightarrow> hook_state" where
  "hook_run [] s = s"
| "hook_run (e # es) s = hook_run es (hook_step e s)"

text \<open>Three file systems and two hook states used as concrete inputs below: one that
  accepts every call, one that refuses every write and one that refuses every mkdir; a
  hook whose boot has resolved, and the same hook after the component unmounted.\<close>

definition fs_accepting :: fs_answers where
  "fs_accepting = \<lparr> mkdir_answer = (\<lambda>p. Inr ()), writeFile_answer = (\<lambda>p c. Inr ()) \<rparr>"

definition fs_read_only :: fs_answers where
  "fs_read_only = \<lparr> mkdir_answer = (\<lambda>p. Inr ()),
                     writeFile_answer = (\<lambda>p c. Inl (Error ''EROFS'')) \<rparr>"

definition fs_no_mkdir :: fs_answers where
  "fs_no_mkdir = \<lparr> mkdir_answer = (\<lambda>p. Inl (NonError None)),
                    writeFile_answer = (\<lambda>p c. Inr ()) \<rparr>"

definition hook_booted :: hook_state where
  "hook_booted = hook_run [Initialize, BootSettled (Inr (WebContainer 1))] useWebContainer_initial"



section \<open>The pseudo-terminal view and the shell bridge: components/terminal.tsx\<close>

text \<open>Rendering a JavaScript integer in a template literal: decimal digits, with a
  minus sign below zero.\<close>

fun show_nat :: "nat \<Rightarrow> string" where
  "show_nat n =
     (if n < 10 then [char_of (48 + n)]
      else show_nat (n div 10) @ [char_of (48 + n mod 10)])"

declare show_nat.simps [simp del]

definition show_int :: "int \<Rightarrow> string" where
  "show_int i = (if i < 0 then ''-'' @ show_nat (nat (- i)) else show_nat (nat i))"

definition crlf :: string where
  "crlf = [CHR 0x0D, CHR 0x0A]"

definition esc :: string where
  "esc = [CHR 0x1B]"

text \<open>
  A spawned process of the sandbox, and the calls the bridge makes: the spawn of the
  shell with the terminal's columns and rows, \<^verbatim>\<open>resize({cols, rows})\<close>, a write to the
  input of a process, \<^verbatim>\<open>kill()\<close>.
\<close>

datatype shell_process = ShellProcess nat

datatype process_call =
    SpawnShell int int
  | ProcResize shell_process int int
  | ProcInput shell_process string
  | ProcKill shell_process

text \<open>
  An xterm surface. Every run of the main effect creates its own; \<open>surfaceId\<close> tells them
  apart (the number of surfaces created before it). A surface holds the chunks written
  since the last clear, whether it has the focus, and the listeners registered on it with
  \<^verbatim>\<open>onData\<close> and \<^verbatim>\<open>onResize\<close>, each named by the process its closure captured.
\<close>

record xterm =
  surfaceId :: nat
  written :: "string list"
  focused :: bool
  onDataListeners :: "shell_process list"
  onResizeListeners :: "shell_process list"

definition new_Terminal :: "nat \<Rightarrow> xterm" where
  "new_Terminal n =
     \<lparr> surfaceId = n, written = [], focused = False, onDataListeners = [],
       onResizeListeners = [] \<rparr>"

text \<open>
  The refs of one \<^verbatim>\<open>TerminalComponent\<close> (\<^verbatim>\<open>term.current\<close>, \<^verbatim>\<open>shellProcessRef.current\<close>,
  \<^verbatim>\<open>isShellStarting.current\<close>), the number of surfaces created so far, and the calls made
  on processes so far. The two addon refs are set and cleared together with
  \<^verbatim>\<open>term.current\<close> and are left out.

  \<^verbatim>\<open>term.current\<close> is the surface of the latest effect run until the cleanup of that run
  disposes it and sets the ref to \<^verbatim>\<open>null\<close>; a run starts only after the cleanup of the one
  before. So a surface other than the one in \<^verbatim>\<open>term.current\<close> has been disposed: it shows
  nothing and its listeners are never called.
\<close>

record terminal_component =
  term_current :: "xterm option"
  shellProcessRef_current :: "shell_process option"
  isShellStarting_current :: bool
  surfacesCreated :: nat
  processCalls :: "process_call list"

definition TerminalComponent_initial :: terminal_component where
  "TerminalComponent_initial =
     \<lparr> term_current = None, shellProcessRef_current = None,
       isShellStarting_current = False, surfacesCreated = 0, processCalls = [] \<rparr>"

text \<open>The three operations of \<^verbatim>\<open>useImperativeHandle\<close>; each is
  \<^verbatim>\<open>term.current?.op(...)\<close>.\<close>

definition writeToTerminal :: "string \<Rightarrow> terminal_component \<Rightarrow> terminal_component" where
  "writeToTerminal data tc =
     (case term_current tc of
        None \<Rightarrow> tc
      | Some t \<Rightarrow> tc\<lparr>term_current := Some (t\<lparr>written := written t @ [data]\<rparr>)\<rparr>)"

definition clearTerminal :: "terminal_component \<Rightarrow> terminal_component" where
  "clearTerminal tc =
     (case term_current tc of
        None \<Rightarrow> tc
      | Some t \<Rightarrow> tc\<lparr>term_current := Some (t\<lparr>written := []\<rparr>)\<rparr>)"

definition focusTerminal :: "terminal_component \<Rightarrow> terminal_component" where
  "focusTerminal tc =
     (case term_current tc of
        None \<Rightarrow> tc
      | Some t \<Rightarrow> tc\<lparr>term_current := Some (t\<lparr>focused := True\<rparr>)\<rparr>)"

text \<open>
  The main effect up to the timer that starts the shell: the guard against a second
  initialization, then the surface is created. \<open>hasInstance\<close> is
  \<^verbatim>\<open>webContainerInstance\<close> being set, \<open>hasContainer\<close> is \<^verbatim>\<open>terminalRef.current\<close> (the DOM
  node) being set.
\<close>

definition terminal_effect :: "bool \<Rightarrow> bool \<Rightarrow> terminal_component \<Rightarrow> terminal_component" where
  "terminal_effect hasInstance hasContainer tc =
     (if term_current tc \<noteq> None \<or> \<not> hasInstance \<or> \<not> hasContainer then tc
      else tc\<lparr>term_current := Some (new_Terminal (surfacesCreated tc)),
              surfacesCreated := Suc (surfacesCreated tc)\<rparr>)"

text \<open>
  A call on \<^verbatim>\<open>terminal\<close>, the surface that the closure of an effect run captured (the one
  with number \<open>sid\<close>): it acts on that surface while it is the one in \<^verbatim>\<open>term.current\<close>, and
  has no visible effect once that surface is disposed.
\<close>

definition on_surface :: "nat \<Rightarrow> (xterm \<Rightarrow> xterm) \<Rightarrow> terminal_component \<Rightarrow> terminal_component" where
  "on_surface sid f tc =
     (case term_current tc of
        None \<Rightarrow> tc
      | Some t \<Rightarrow> (if surfaceId t = sid then tc\<lparr>term_current := Some (f t)\<rparr> else tc))"

definition msg_starting_shell :: string where
  "msg_starting_shell = esc @ ''[32m$ Starting shell...'' @ esc @ ''[0m'' @ crlf"

definition msg_shell_error :: "string \<Rightarrow> string" where
  "msg_shell_error msg = crlf @ esc @ ''[31mError starting shell: '' @ msg @ esc @ ''[0m'' @ crlf"

definition msg_shell_hint :: string where
  "msg_shell_hint =
     crlf @ esc @ ''[33mPlease make sure WebContainer is fully initialized.'' @ esc @ ''[0m'' @ crlf"


text \<open>
  The \<^verbatim>\<open>catch\<close> and \<^verbatim>\<open>finally\<close> of \<^verbatim>\<open>startShell\<close>, for an error with message \<open>msg\<close> (every
  error that reaches this \<^verbatim>\<open>catch\<close> is an \<^verbatim>\<open>Error\<close> that \<^verbatim>\<open>startShell\<close> itself created).
\<close>

definition startShell_catch :: "nat \<Rightarrow> string \<Rightarrow> terminal_component \<Rightarrow> terminal_component" where
  "startShell_catch sid msg tc =
     (case term_current tc of
        None \<Rightarrow> tc
      | Some c \<Rightarrow>
          on_surface sid (\<lambda>t. t\<lparr>written := written t @ [msg_shell_error msg, msg_shell_hint]\<rparr>) tc)
     \<lparr>isShellStarting_current := False\<rparr>"

text \<open>
  \<^verbatim>\<open>startShell\<close> of the effect run with surface \<open>sid\<close>, up to its \<^verbatim>\<open>await\<close> of the spawn:
  the guard, the flag, the fit (after which the surface has \<open>fitted\<close> columns and rows;
  a \<^verbatim>\<open>NaN\<close> counts as 0, both are falsy), the safe dimensions, the line written to the
  surface and the spawn with those dimensions. The wait of 50 ms is taken as
  uninterrupted.
\<close>

definition startShell_begin ::
  "nat \<Rightarrow> bool \<Rightarrow> int \<times> int \<Rightarrow> terminal_component \<Rightarrow> terminal_component" where
  "startShell_begin sid hasInstance fitted tc =
     (if isShellStarting_current tc then tc
      else if \<not> hasInstance
      then startShell_catch sid ''WebContainer instance is not available''
             (tc\<lparr>isShellStarting_current := True\<rparr>)
      else
        (let safeCols = (if fst fitted \<noteq> 0 \<and> fst fitted > 0 then fst fitted else 80);
             safeRows = (if snd fitted \<noteq> 0 \<and> snd fitted > 0 then snd fitted else 24);
             tc1 = on_surface sid (\<lambda>t. t\<lparr>written := written t @ [msg_starting_shell]\<rparr>)
                     (tc\<lparr>isShellStarting_current := True\<rparr>)
         in tc1\<lparr>processCalls := processCalls tc1 @ [SpawnShell safeCols safeRows]\<rparr>))"

text \<open>
  The rest of \<^verbatim>\<open>startShell\<close>, run when the spawn settles. \<open>Inl txt\<close>: the spawn rejected,
  \<open>txt\<close> being \<^verbatim>\<open>spawnError instanceof Error ? spawnError.message : String(spawnError)\<close>;
  \<open>Inr None\<close>: it resolved to no process; \<open>Inr (Some p)\<close>: it resolved to \<open>p\<close>. In the last
  case the handle is stored in the shared ref and both listeners are registered on the
  surface of this run, which may be disposed by now.
\<close>

definition startShell_resume ::
  "nat \<Rightarrow> string + shell_process option \<Rightarrow> terminal_component \<Rightarrow> terminal_component" where
  "startShell_resume sid answer tc =
     (case answer of
        Inl txt \<Rightarrow> startShell_catch sid (''Failed to spawn shell: '' @ txt) tc
      | Inr None \<Rightarrow> startShell_catch sid ''Shell process is null'' tc
      | Inr (Some p) \<Rightarrow>
          (on_surface sid
             (\<lambda>t. t\<lparr>onDataListeners := onDataListeners t @ [p],
                     onResizeListeners := onResizeListeners t @ [p]\<rparr>)
             (tc\<lparr>shellProcessRef_current := Some p\<rparr>))
          \<lparr>isShellStarting_current := False\<rparr>)"

text \<open>A chunk of output of the shell of run \<open>sid\<close> arrives:
  \<^verbatim>\<open>if (term.current) terminal.write(data)\<close>.\<close>

definition shell_output :: "nat \<Rightarrow> string \<Rightarrow> terminal_component \<Rightarrow> terminal_component" where
  "shell_output sid data tc =
     (case term_current tc of
        None \<Rightarrow> tc
      | Some c \<Rightarrow> on_surface sid (\<lambda>t. t\<lparr>written := written t @ [data]\<rparr>) tc)"

text \<open>The \<^verbatim>\<open>onData\<close> listener of the run that spawned \<open>p\<close>. A write that throws is
  caught and logged.\<close>

definition dataListener :: "shell_process \<Rightarrow> string \<Rightarrow> terminal_component \<Rightarrow> terminal_component" where
  "dataListener p data tc = tc\<lparr>processCalls := processCalls tc @ [ProcInput p data]\<rparr>"




text \<open>The cleanup the main effect returns: the live process is killed, the surface is
  disposed and every ref is reset.\<close>

definition terminal_cleanup :: "terminal_component \<Rightarrow> terminal_component" where
  "terminal_cleanup tc =
     (let tc1 = (case shellProcessRef_current tc of
                   None \<Rightarrow> tc
                 | Some p \<Rightarrow> tc\<lparr>processCalls := processCalls tc @ [ProcKill p],
                                shellProcessRef_current := None\<rparr>)
      in tc1\<lparr>term_current := None, isShellStarting_current := False\<rparr>)"

section \<open>The session setup orchestrator: WebContainerPreview in components/terminal.tsx\<close>

subsection \<open>What the sandbox answers\<close>

text \<open>
  An awaited promise of the sandbox has resolved with a value, has rejected with a thrown
  value, or has not settled yet; in the last case the run stays suspended at that
  \<^verbatim>\<open>await\<close>.
\<close>

datatype 'a settled = Resolved 'a | Rejected js_exn | Pending

text \<open>
  The value \<^verbatim>\<open>JSON.parse\<close> returns. The source only tests a number for truthiness,
  so a number is represented by an integer that is 0 exactly when the number is; an
  object is the list of its members, keys distinct.
\<close>

datatype json =
    JNull
  | JBool bool
  | JNumber int
  | JString string
  | JArray "json list"
  | JObject "(string \<times> json) list"

text \<open>JavaScript truthiness of a parsed value.\<close>

fun truthy :: "json \<Rightarrow> bool" where
  "truthy JNull = False"
| "truthy (JBool b) = b"
| "truthy (JNumber n) = (n \<noteq> 0)"
| "truthy (JString s) = (s \<noteq> [])"
| "truthy (JArray xs) = True"
| "truthy (JObject ms) = True"

text \<open>
  Reading the property \<^verbatim>\<open>scripts\<close> or \<^verbatim>\<open>dev\<close> of a parsed value: on \<^verbatim>\<open>null\<close> the read
  throws a TypeError (the source catches it and never reads its message); on an object it
  is the member or \<^verbatim>\<open>undefined\<close> (\<open>None\<close>); strings, numbers, booleans and arrays have no
  property of either name.
\<close>

fun get_member :: "json \<Rightarrow> string \<Rightarrow> js_exn + json option" where
  "get_member JNull k = Inl (Error ''Cannot read properties of null'')"
| "get_member (JObject ms) k = Inr (map_of ms k)"
| "get_member v k = Inr None"

text \<open>\<^verbatim>\<open>pkg.scripts && pkg.scripts.dev\<close>, as the condition of the \<^verbatim>\<open>if\<close>.\<close>

definition scripts_dev :: "json \<Rightarrow> js_exn + bool" where
  "scripts_dev pkg =
     (case get_member pkg ''scripts'' of
        Inl e \<Rightarrow> Inl e
      | Inr None \<Rightarrow> Inr False
      | Inr (Some sc) \<Rightarrow>
          (if \<not> truthy sc then Inr False
           else (case get_member sc ''dev'' of
                   Inl e \<Rightarrow> Inl e
                 | Inr None \<Rightarrow> Inr False
                 | Inr (Some d) \<Rightarrow> Inr (truthy d))))"

text \<open>The project tree handed to the component, and the sandbox's mount descriptor.\<close>

datatype template_item =
    TemplateFile string string string
  | TemplateFolder string "template_item list"

datatype fs_node = FileNode string | DirectoryNode "(string \<times> fs_node) list"

type_synonym fs_tree = "(string \<times> fs_node) list"

text \<open>
  Everything a run of the setup asks of the outside, in the order it asks: the first
  read of the manifest, the conversion of the project tree (\<^verbatim>\<open>hooks/transformer\<close>, a
  function of this repository whose file is not among the sources, taken as a
  parameter; \<open>Inl\<close> when it throws), the mount, the removal of the lock file, the spawn of
  the installation, the chunks it prints and its exit code, the second read of the
  manifest, \<^verbatim>\<open>JSON.parse\<close>, and the spawn of the run script.
\<close>

record externals =
  readFile_detect :: "string settled"
  transformToWebContainerFormat :: "template_item \<Rightarrow> js_exn + fs_tree"
  mount_answer :: "unit settled"
  rm_answer :: "unit settled"
  spawn_install :: "unit settled"
  install_output :: "string list"
  install_exit :: "int settled"
  readFile_start :: "string settled"
  JSON_parse :: "string \<Rightarrow> js_exn + json"
  spawn_start :: "unit settled"

subsection \<open>State, props and messages\<close>

datatype ready_listener = ReconnectListener | StartListener

datatype sandbox_call =
    FsReadFile string
  | OnServerReady ready_listener
  | Mount fs_tree
  | FsRm string
  | Spawn string "string list"

text \<open>
  The React state of \<^verbatim>\<open>WebContainerPreview\<close>, the terminal component behind
  \<^verbatim>\<open>terminalRef.current\<close> (\<open>None\<close> while the ref is not attached), and the calls made on
  the sandbox instance so far.
\<close>

record preview_state =
  previewUrl :: string
  currentStep :: nat
  internalError :: "string option"
  isSetupComplete :: bool
  isSetupInProgress :: bool
  terminalRef_current :: "terminal_component option"
  sandboxCalls :: "sandbox_call list"

record preview_props =
  instanceProp :: "webcontainer option"
  parentLoading :: bool
  forceResetup :: bool
  templateData :: template_item

definition WebContainerPreview_initial :: "terminal_component option \<Rightarrow> preview_state" where
  "WebContainerPreview_initial tref =
     \<lparr> previewUrl = [], currentStep = 0, internalError = None, isSetupComplete = False,
       isSetupInProgress = False, terminalRef_current = tref, sandboxCalls = [] \<rparr>"

text \<open>\<^verbatim>\<open>terminalRef.current?.writeToTerminal(data)\<close>.\<close>

definition ref_writeToTerminal :: "string \<Rightarrow> preview_state \<Rightarrow> preview_state" where
  "ref_writeToTerminal data w =
     (case terminalRef_current w of
        None \<Rightarrow> w
      | Some tc \<Rightarrow> w\<lparr>terminalRef_current := Some (writeToTerminal data tc)\<rparr>)"

text \<open>The pictographs of the messages, as the UTF-8 bytes of the source file.\<close>

definition sym_reconnect :: string where "sym_reconnect = [CHR 0xF0, CHR 0x9F, CHR 0x94, CHR 0x84]"
definition sym_globe :: string where "sym_globe = [CHR 0xF0, CHR 0x9F, CHR 0x8C, CHR 0x90]"
definition sym_package :: string where "sym_package = [CHR 0xF0, CHR 0x9F, CHR 0x93, CHR 0xA6]"
definition sym_check :: string where "sym_check = [CHR 0xE2, CHR 0x9C, CHR 0x85]"
definition sym_inbox :: string where "sym_inbox = [CHR 0xF0, CHR 0x9F, CHR 0x93, CHR 0xA5]"
definition sym_cross :: string where "sym_cross = [CHR 0xE2, CHR 0x9D, CHR 0x8C]"
definition sym_warning :: string where "sym_warning = [CHR 0xE2, CHR 0x9A, CHR 0xA0, CHR 0xEF, CHR 0xB8, CHR 0x8F]"
definition sym_rocket :: string where "sym_rocket = [CHR 0xF0, CHR 0x9F, CHR 0x9A, CHR 0x80]"
definition sym_sparkles :: string where "sym_sparkles = [CHR 0xE2, CHR 0x9C, CHR 0xA8]"
definition apos :: string where "apos = [CHR 0x27]"

definition msg_reconnecting :: string where
  "msg_reconnecting = sym_reconnect @ '' Files detected. Reconnecting session...'' @ crlf"

definition msg_preparing :: string where
  "msg_preparing = sym_package @ '' Preparing file system...'' @ crlf"

definition msg_mounted :: string where
  "msg_mounted = sym_check @ '' File system mounted.'' @ crlf"

definition msg_installing :: string where
  "msg_installing = sym_inbox @ '' Installing dependencies... (this may take a moment)'' @ crlf"

definition msg_lock_removed :: string where
  "msg_lock_removed = ''   (removed existing package-lock.json to ensure compatibility)'' @ crlf"

definition msg_install_failed :: "int \<Rightarrow> string" where
  "msg_install_failed code =
     sym_cross @ '' npm install failed with code '' @ show_int code @ ''. See terminal for details.''"

definition msg_manual :: string where
  "msg_manual = sym_warning @ '' You can try running '' @ apos @ ''npm install'' @ apos @
                '' manually in this terminal.'' @ crlf"

definition msg_installed :: string where
  "msg_installed = sym_check @ '' Dependencies installed.'' @ crlf"

definition msg_no_scripts :: string where
  "msg_no_scripts = sym_warning @ '' Could not read package.json scripts, defaulting to '' @
                    apos @ ''npm start'' @ apos @ crlf"

definition msg_starting :: "string \<Rightarrow> string" where
  "msg_starting startCommand =
     sym_rocket @ '' Starting server with '' @ apos @ ''npm run '' @ startCommand @ apos @ ''...'' @ crlf"

definition msg_fatal :: "string \<Rightarrow> string" where
  "msg_fatal msg = crlf @ sym_cross @ '' Fatal Error: '' @ msg @ crlf"

text \<open>The two \<^verbatim>\<open>server-ready\<close> callbacks, called with the url of the event.\<close>

definition server_ready :: "ready_listener \<Rightarrow> string \<Rightarrow> preview_state \<Rightarrow> preview_state" where
  "server_ready l url w =
     (ref_writeToTerminal
        (case l of
           ReconnectListener \<Rightarrow> sym_globe @ '' Server ready at '' @ url @ crlf
         | StartListener \<Rightarrow> sym_sparkles @ '' Server ready: '' @ url @ crlf) w)
     \<lparr>previewUrl := url\<rparr>"

subsection \<open>The two effects\<close>

text \<open>The first effect: it runs when \<^verbatim>\<open>forceResetup\<close> changes.\<close>

definition reset_effect :: "preview_props \<Rightarrow> preview_state \<Rightarrow> preview_state" where
  "reset_effect props w =
     (if forceResetup props
      then w\<lparr>isSetupComplete := False, isSetupInProgress := False, previewUrl := [],
             internalError := None, currentStep := 0\<rparr>
      else w)"

text \<open>
  How a block of \<^verbatim>\<open>setupContainer\<close> ends: it returned, it threw, or it is suspended at
  an \<^verbatim>\<open>await\<close> whose promise has not settled.
\<close>

datatype flow = Returned | Threw js_exn | Awaiting

text \<open>
  The choice of the run script (``Smart detect start command''): the command, and
  whether the \<^verbatim>\<open>catch\<close> wrote its warning. \<open>None\<close> while the read has not settled.
\<close>

definition start_command :: "externals \<Rightarrow> (string \<times> bool) option" where
  "start_command ext =
     (case readFile_start ext of
        Pending \<Rightarrow> None
      | Rejected e \<Rightarrow> Some (''start'', True)
      | Resolved pkgRaw \<Rightarrow>
          (case JSON_parse ext pkgRaw of
             Inl e \<Rightarrow> Some (''start'', True)
           | Inr pkg \<Rightarrow>
               (case scripts_dev pkg of
                  Inl e \<Rightarrow> Some (''start'', True)
                | Inr b \<Rightarrow> Some (if b then ''dev'' else ''start'', False))))"

text \<open>STEP 4: START SERVER.\<close>

definition setup_start :: "externals \<Rightarrow> preview_state \<Rightarrow> flow \<times> preview_state" where
  "setup_start ext w =
     (let w1 = w\<lparr>currentStep := 4,
                  sandboxCalls := sandboxCalls w @ [FsReadFile ''package.json'']\<rparr>
      in case start_command ext of
           None \<Rightarrow> (Awaiting, w1)
         | Some (startCommand, warned) \<Rightarrow>
             (let w2 = (if warned then ref_writeToTerminal msg_no_scripts w1 else w1);
                  w3 = ref_writeToTerminal (msg_starting startCommand) w2;
                  w4 = w3\<lparr>sandboxCalls := sandboxCalls w3 @ [Spawn ''npm'' [''run'', startCommand]]\<rparr>
              in case spawn_start ext of
                   Pending \<Rightarrow> (Awaiting, w4)
                 | Rejected e \<Rightarrow> (Threw e, w4)
                 | Resolved u \<Rightarrow>
                     (Returned,
                      w4\<lparr>sandboxCalls := sandboxCalls w4 @ [OnServerReady StartListener],
                         isSetupComplete := True, isSetupInProgress := False\<rparr>)))"

text \<open>STEP 3: INSTALL, and on exit code 0 the start.\<close>

definition setup_install :: "externals \<Rightarrow> preview_state \<Rightarrow> flow \<times> preview_state" where
  "setup_install ext w =
     (let w1 = ref_writeToTerminal msg_installing (w\<lparr>currentStep := 3\<rparr>);
          w2 = w1\<lparr>sandboxCalls := sandboxCalls w1 @ [FsRm ''package-lock.json'']\<rparr>
      in case rm_answer ext of
           Pending \<Rightarrow> (Awaiting, w2)
         | _ \<Rightarrow>
             (let w3 = (case rm_answer ext of
                          Resolved u \<Rightarrow> ref_writeToTerminal msg_lock_removed w2
                        | _ \<Rightarrow> w2);
                  w4 = w3\<lparr>sandboxCalls := sandboxCalls w3 @
                             [Spawn ''npm'' [''install'', ''--no-optional'', ''--legacy-peer-deps'']]\<rparr>
              in case spawn_install ext of
                   Pending \<Rightarrow> (Awaiting, w4)
                 | Rejected e \<Rightarrow> (Threw e, w4)
                 | Resolved u \<Rightarrow>
                     (let w5 = fold ref_writeToTerminal (install_output ext) w4
                      in case install_exit ext of
                           Pending \<Rightarrow> (Awaiting, w5)
                         | Rejected e \<Rightarrow> (Threw e, w5)
                         | Resolved installExitCode \<Rightarrow>
                             (if installExitCode \<noteq> 0
                              then
                                (let msg = msg_install_failed installExitCode;
                                     w6 = ref_writeToTerminal (crlf @ msg @ crlf) w5;
                                     w7 = ref_writeToTerminal msg_manual w6
                                 in (Returned,
                                     w7\<lparr>internalError := Some msg, isSetupComplete := True,
                                        isSetupInProgress := False\<rparr>))
                              else setup_start ext (ref_writeToTerminal msg_installed w5)))))"

text \<open>STEP 1: PREPARE FILES and STEP 2: MOUNT, then the installation.\<close>

definition setup_mount :: "externals \<Rightarrow> preview_props \<Rightarrow> preview_state \<Rightarrow> flow \<times> preview_state" where
  "setup_mount ext props w =
     (let w1 = ref_writeToTerminal msg_preparing (w\<lparr>currentStep := 1\<rparr>)
      in case transformToWebContainerFormat ext (templateData props) of
           Inl e \<Rightarrow> (Threw e, w1)
         | Inr files \<Rightarrow>
             (let w2 = w1\<lparr>currentStep := 2, sandboxCalls := sandboxCalls w1 @ [Mount files]\<rparr>
              in case mount_answer ext of
                   Pending \<Rightarrow> (Awaiting, w2)
                 | Rejected e \<Rightarrow> (Threw e, w2)
                 | Resolved u \<Rightarrow> setup_install ext (ref_writeToTerminal msg_mounted w2)))"

text \<open>
  CHECK RECONNECT: the value of \<^verbatim>\<open>isReconnecting\<close> after the inner \<^verbatim>\<open>try\<close>, \<open>None\<close>
  while the read has not settled. \<^verbatim>\<open>packageJsonExists\<close> is the text the read resolved
  with, tested for truthiness: the empty text is falsy.
\<close>

definition detect_reconnect :: "externals \<Rightarrow> preview_props \<Rightarrow> bool option" where
  "detect_reconnect ext props =
     (case readFile_detect ext of
        Pending \<Rightarrow> None
      | Rejected e \<Rightarrow> Some False
      | Resolved packageJsonExists \<Rightarrow> Some (packageJsonExists \<noteq> [] \<and> \<not> forceResetup props))"

text \<open>The body of the outer \<^verbatim>\<open>try\<close>.\<close>

definition setup_body :: "externals \<Rightarrow> preview_props \<Rightarrow> preview_state \<Rightarrow> flow \<times> preview_state" where
  "setup_body ext props w =
     (let w1 = w\<lparr>sandboxCalls := sandboxCalls w @ [FsReadFile ''package.json'']\<rparr>
      in case detect_reconnect ext props of
           None \<Rightarrow> (Awaiting, w1)
         | Some isReconnecting \<Rightarrow>
             (if isReconnecting
              then
                (let w2 = ref_writeToTerminal msg_reconnecting w1
                 in (Returned,
                     w2\<lparr>sandboxCalls := sandboxCalls w2 @ [OnServerReady ReconnectListener],
                        isSetupComplete := True, isSetupInProgress := False\<rparr>))
              else setup_mount ext props w1))"

text \<open>
  The outer \<^verbatim>\<open>catch\<close>. It first evaluates \<^verbatim>\<open>err.message || "Unknown error during setup"\<close>:
  on a thrown \<^verbatim>\<open>null\<close> or \<^verbatim>\<open>undefined\<close> that read throws a TypeError (its text is the
  engine's) and the rest of the block, with the two state writes that end the run, is
  skipped: the call of \<^verbatim>\<open>setupContainer\<close> ends by throwing.
\<close>

definition setup_catch :: "js_exn \<Rightarrow> preview_state \<Rightarrow> flow \<times> preview_state" where
  "setup_catch err w =
     (case err of
        Nullish \<Rightarrow> (Threw (Error ''Cannot read properties of null''), w)
      | _ \<Rightarrow>
          (let read = (case err of Error m \<Rightarrow> m | NonError (Some m) \<Rightarrow> m | _ \<Rightarrow> []);
               msg = (if read \<noteq> [] then read else ''Unknown error during setup'');
               w1 = ref_writeToTerminal (msg_fatal msg) (w\<lparr>internalError := Some msg\<rparr>)
           in (Returned, w1\<lparr>isSetupInProgress := False, isSetupComplete := True\<rparr>)))"

text \<open>
  \<^verbatim>\<open>setupContainer\<close>, as the second effect calls it. The function is a closure of a
  render: its two guards read \<^verbatim>\<open>instance\<close>, \<^verbatim>\<open>isSetupComplete\<close>, \<^verbatim>\<open>isSetupInProgress\<close> and
  \<^verbatim>\<open>parentLoading\<close> as that render saw them (\<open>props\<close>, and the state \<open>rendered\<close>), not as
  they are when the call is made. The state setters write absolute values, which is what
  the next render sees: they act on the current state \<open>w\<close>. After the guards come the two
  state writes before the \<^verbatim>\<open>try\<close>, the body, and the \<^verbatim>\<open>catch\<close> for what the body threw.
\<close>

definition setupContainer ::
  "externals \<Rightarrow> preview_props \<Rightarrow> preview_state \<Rightarrow> preview_state \<Rightarrow> flow \<times> preview_state" where
  "setupContainer ext props rendered w =
     (if instanceProp props = None \<or> isSetupComplete rendered \<or> isSetupInProgress rendered
      then (Returned, w)
      else if parentLoading props then (Returned, w)
      else
        (case setup_body ext props (w\<lparr>isSetupInProgress := True, internalError := None\<rparr>) of
           (Threw err, w') \<Rightarrow> setup_catch err w'
         | r \<Rightarrow> r))"

subsection \<open>Concrete inputs\<close>

text \<open>The manifest member \<^verbatim>\<open>scripts.dev\<close> of a parsed manifest, when the manifest is an
  object whose \<^verbatim>\<open>scripts\<close> member is an object that has a \<^verbatim>\<open>dev\<close> member.\<close>

fun dev_script_of :: "json \<Rightarrow> json option" where
  "dev_script_of (JObject ms) =
     (case map_of ms ''scripts'' of Some (JObject sc) \<Rightarrow> map_of sc ''dev'' | _ \<Rightarrow> None)"
| "dev_script_of v = None"

text \<open>Whether the terminal behind the ref has a live surface.\<close>

definition terminal_live :: "preview_state \<Rightarrow> bool" where
  "terminal_live w =
     (case terminalRef_current w of None \<Rightarrow> False | Some tc \<Rightarrow> term_current tc \<noteq> None)"

text \<open>
  A terminal whose first effect run created a surface of 80 by 24 and attached shell 1.
  The same component after a change of theme: the cleanup has killed shell 1 and
  disposed its surface, the next effect run has created a second surface and attached
  shell 2, and only then the exit of the killed shell 1 is delivered.
\<close>

definition terminal_attached :: terminal_component where
  "terminal_attached =
     startShell_resume 0 (Inr (Some (ShellProcess 1)))
       (startShell_begin 0 True (80, 24) (terminal_effect True True TerminalComponent_initial))"



text \<open>
  Three manifests, as text and as \<^verbatim>\<open>JSON.parse\<close> reads them: one with a \<^verbatim>\<open>dev\<close> and a
  \<^verbatim>\<open>start\<close> script, one with a \<^verbatim>\<open>start\<close> script only, one whose \<^verbatim>\<open>dev\<close> script is the
  empty text. \<open>parse_known\<close> is \<^verbatim>\<open>JSON.parse\<close> on these texts, on the text of the empty
  object and on the empty text; no other text is parsed below.
\<close>

definition quoted :: "string \<Rightarrow> string" where
  "quoted s = [CHR 0x22] @ s @ [CHR 0x22]"

definition manifest_dev_text :: string where
  "manifest_dev_text =
     ''{'' @ quoted ''name'' @ '':'' @ quoted ''app'' @ '','' @ quoted ''scripts'' @ '':{'' @
     quoted ''dev'' @ '':'' @ quoted ''vite'' @ '','' @
     quoted ''start'' @ '':'' @ quoted ''node server.js'' @ ''}}''"

definition manifest_dev :: json where
  "manifest_dev =
     JObject [(''name'', JString ''app''),
              (''scripts'', JObject [(''dev'', JString ''vite''), (''start'', JString ''node server.js'')])]"

definition manifest_start_text :: string where
  "manifest_start_text =
     ''{'' @ quoted ''scripts'' @ '':{'' @ quoted ''start'' @ '':'' @ quoted ''node .'' @ ''}}''"

definition manifest_start :: json where
  "manifest_start = JObject [(''scripts'', JObject [(''start'', JString ''node .'')])]"

definition manifest_empty_dev_text :: string where
  "manifest_empty_dev_text =
     ''{'' @ quoted ''scripts'' @ '':{'' @ quoted ''dev'' @ '':'' @ quoted [] @ ''}}''"

definition manifest_empty_dev :: json where
  "manifest_empty_dev = JObject [(''scripts'', JObject [(''dev'', JString [])])]"

definition parse_known :: "string \<Rightarrow> js_exn + json" where
  "parse_known s =
     (if s = manifest_dev_text then Inr manifest_dev
      else if s = manifest_start_text then Inr manifest_start
      else if s = manifest_empty_dev_text then Inr manifest_empty_dev
      else if s = ''{}'' then Inr (JObject [])
      else Inl (Error ''Unexpected end of JSON input''))"

text \<open>
  A sandbox without a manifest in which every stage of a fresh setup succeeds: the
  project tree converts to a tree with the first manifest, which the second read then
  returns. The props of a normal run and of a forced reset; a preview whose terminal is
  live; a preview that serves a url.
\<close>

definition ext_fresh :: externals where
  "ext_fresh =
     \<lparr> readFile_detect = Rejected (Error ''ENOENT''),
       transformToWebContainerFormat = (\<lambda>t. Inr [(''package.json'', FileNode manifest_dev_text)]),
       mount_answer = Resolved (),
       rm_answer = Rejected (Error ''ENOENT''),
       spawn_install = Resolved (),
       install_output = [''added 1 package''],
       install_exit = Resolved 0,
       readFile_start = Resolved manifest_dev_text,
       JSON_parse = parse_known,
       spawn_start = Resolved () \<rparr>"

definition props_normal :: preview_props where
  "props_normal =
     \<lparr> instanceProp = Some (WebContainer 1), parentLoading = False, forceResetup = False,
       templateData = TemplateFolder ''root'' [] \<rparr>"

definition preview_live :: preview_state where
  "preview_live = WebContainerPreview_initial (Some terminal_attached)"

definition props_reset :: preview_props where
  "props_reset = props_normal\<lparr>forceResetup := True\<rparr>"

definition preview_served :: preview_state where
  "preview_served =
     (WebContainerPreview_initial None)
       \<lparr>previewUrl := ''http://localhost:5173'', currentStep := 4, isSetupComplete := True\<rparr>"

text \<open>What the live surface behind the ref shows: the chunks written to it.\<close>

definition terminal_text :: "preview_state \<Rightarrow> string list" where
  "terminal_text w =
     (case terminalRef_current w of
        None \<Rightarrow> []
      | Some tc \<Rightarrow> (case term_current tc of None \<Rightarrow> [] | Some t \<Rightarrow> written t))"

text \<open>
  The in-progress flag agrees with how a block ended: clear when it returned, set while
  it is suspended, and still set when it threw (the outer \<^verbatim>\<open>catch\<close> is then to run).
\<close>

definition flag_agrees :: "flow \<times> preview_state \<Rightarrow> bool" where
  "flag_agrees r =
     (case fst r of
        Returned \<Rightarrow> \<not> isSetupInProgress (snd r)
      | Awaiting \<Rightarrow> isSetupInProgress (snd r)
      | Threw e \<Rightarrow> isSetupInProgress (snd r))"

text \<open>
  A sandbox whose installation has not exited yet, and the preview in which a run is
  suspended there; a sandbox whose mount rejects with \<^verbatim>\<open>undefined\<close>.
\<close>

definition ext_installing :: externals where
  "ext_installing = ext_fresh\<lparr>install_exit := Pending\<rparr>"

definition preview_suspended :: preview_state where
  "preview_suspended = snd (setupContainer ext_installing props_normal preview_live preview_live)"

definition ext_mount_undefined :: externals where
  "ext_mount_undefined = ext_fresh\<lparr>mount_answer := Rejected Nullish\<rparr>"

text \<open>
  The thrown values that reach the outer \<^verbatim>\<open>catch\<close> come from the conversion of the tree,
  the mount, the two spawns and the exit of the installation (the reads, the removal and
  the parse have a \<^verbatim>\<open>catch\<close> of their own that does not look at the value). None of them
  is \<^verbatim>\<open>null\<close> or \<^verbatim>\<open>undefined\<close>:
\<close>

definition no_nullish :: "externals \<Rightarrow> preview_props \<Rightarrow> bool" where
  "no_nullish ext props =
     (transformToWebContainerFormat ext (templateData props) \<noteq> Inl Nullish \<and>
      mount_answer ext \<noteq> Rejected Nullish \<and>
      spawn_install ext \<noteq> Rejected Nullish \<and>
      install_exit ext \<noteq> Rejected Nullish \<and>
      spawn_start ext \<noteq> Rejected Nullish)"

section \<open>Properties of the string helpers\<close>

lemma split_pieces_nosep:
  "c \<notin> set f \<Longrightarrow> split_pieces c f = (f, [])"
  by (induction f) auto

lemma split_js_append:
  "c \<notin> set f \<Longrightarrow> split_js c (d @ c # f) = split_js c d @ [f]"
  by (induction d) (auto simp: split_js_def split_pieces_nosep split: prod.splits)

lemma join_split_js: "join_js [c] (split_js c s) = s"
proof (induction s)
  case Nil
  show ?case by (simp add: split_js_def)
next
  case (Cons x xs)
  obtain p ps where sp: "split_pieces c xs = (p, ps)" by (cases "split_pieces c xs")
  from Cons sp have ih: "join_js [c] (p # ps) = xs" by (simp add: split_js_def)
  show ?case
  proof (cases "x = c")
    case True
    with sp ih show ?thesis by (simp add: split_js_def)
  next
    case False
    with sp ih show ?thesis by (cases ps) (auto simp: split_js_def)
  qed
qed

lemma folderPath_of_slash:
  "CHR ''/'' \<notin> set name \<Longrightarrow> folderPath_of (dir @ ''/'' @ name) = dir"
  using split_js_append [of "CHR ''/''" name dir] join_split_js [of "CHR ''/''" dir]
  by (simp add: folderPath_of_def)

lemma folderPath_of_plain:
  "CHR ''/'' \<notin> set name \<Longrightarrow> folderPath_of name = []"
  by (simp add: folderPath_of_def split_js_def split_pieces_nosep)

section \<open>Properties of the runtime session manager\<close>

lemma hook_booted_eq:
  "hook_booted = useWebContainer_initial\<lparr>containerRef := Some (WebContainer 1),
      instance' := Some (WebContainer 1), isReady := True, isLoading := False\<rparr>"
  by (simp add: hook_booted_def useWebContainer_initial_def initializeWebContainer_start_def
      initializeWebContainer_resume_def)



lemma write_failure_includes_path: "\<exists>m. write_failure path err = Error m \<and> sublist path m"
  unfolding write_failure_def by (blast intro: sublist_appendI)





subsection \<open>Teardown\<close>



subsection \<open>Writing a file\<close>

text \<open>
  Claim C8, as the code has it. With the session absent or torn down \<open>writeFileSync\<close>
  makes no call and throws the fixed error \<^verbatim>\<open>WebContainer instance is not available\<close>.
  With a live session, on a path \<open>dir/name\<close> with a directory part it first calls
  \<^verbatim>\<open>mkdir(dir, {recursive: true})\<close>: if that fails it throws and writes nothing; if it
  succeeds it calls \<^verbatim>\<open>writeFile\<close> with the path and the content, and throws if that fails
  and resolves if it succeeds. On a path without a directory part (\<open>name\<close> or \<open>/name\<close>) it
  calls \<^verbatim>\<open>writeFile\<close> only, and throws or resolves as that call does. Every error thrown
  with a live session is \<^verbatim>\<open>Failed to write file at\<close>, the path, a colon and the message of
  the failed call (or \<^verbatim>\<open>Failed to write file\<close> when it threw no \<^verbatim>\<open>Error\<close>), so it includes
  the path.
\<close>

theorem writeFileSync_contract:
  assumes "CHR ''/'' \<notin> set name"
  shows "(instance' s = None \<or> isTornDown_current s \<longrightarrow>
            writeFileSync fs path content s =
              (Inl (Error ''WebContainer instance is not available''), [])) \<and>
         (instance' s = Some i \<and> \<not> isTornDown_current s \<longrightarrow>
            (dir \<noteq> [] \<and> mkdir_answer fs dir = Inl e \<longrightarrow>
               writeFileSync fs (dir @ ''/'' @ name) content s =
                 (Inl (Error (''Failed to write file at '' @ (dir @ ''/'' @ name) @ '': '' @
                         (case e of Error m \<Rightarrow> m | _ \<Rightarrow> ''Failed to write file''))),
                  [Mkdir dir True])) \<and>
            (dir \<noteq> [] \<and> mkdir_answer fs dir = Inr () \<and>
             writeFile_answer fs (dir @ ''/'' @ name) content = Inl e \<longrightarrow>
               writeFileSync fs (dir @ ''/'' @ name) content s =
                 (Inl (Error (''Failed to write file at '' @ (dir @ ''/'' @ name) @ '': '' @
                         (case e of Error m \<Rightarrow> m | _ \<Rightarrow> ''Failed to write file''))),
                  [Mkdir dir True, WriteFile (dir @ ''/'' @ name) content])) \<and>
            (dir \<noteq> [] \<and> mkdir_answer fs dir = Inr () \<and>
             writeFile_answer fs (dir @ ''/'' @ name) content = Inr () \<longrightarrow>
               writeFileSync fs (dir @ ''/'' @ name) content s =
                 (Inr (), [Mkdir dir True, WriteFile (dir @ ''/'' @ name) content])) \<and>
            ((p = name \<or> p = ''/'' @ name) \<and> writeFile_answer fs p content = Inl e \<longrightarrow>
               writeFileSync fs p content s =
                 (Inl (Error (''Failed to write file at '' @ p @ '': '' @
                         (case e of Error m \<Rightarrow> m | _ \<Rightarrow> ''Failed to write file''))),
                  [WriteFile p content])) \<and>
            ((p = name \<or> p = ''/'' @ name) \<and> writeFile_answer fs p content = Inr () \<longrightarrow>
               writeFileSync fs p content s = (Inr (), [WriteFile p content])) \<and>
            (\<forall>x. fst (writeFileSync fs path content s) = Inl x \<longrightarrow>
                 (\<exists>m. x = Error m \<and> sublist path m)))"
proof -
  let ?q = "dir @ ''/'' @ name"
  have absent: "instance' s = None \<or> isTornDown_current s \<Longrightarrow>
      writeFileSync fs path content s =
        (Inl (Error ''WebContainer instance is not available''), [])"
    by (auto simp: writeFileSync_def)
  have fq: "folderPath_of ?q = dir"
    using folderPath_of_slash [OF assms, of dir] by simp
  have fp: "p = name \<or> p = ''/'' @ name \<Longrightarrow> folderPath_of p = []"
    using folderPath_of_plain [OF assms] folderPath_of_slash [OF assms, of "[]"] by auto
  have n1: "instance' s = Some i \<and> \<not> isTornDown_current s \<Longrightarrow>
      dir \<noteq> [] \<and> mkdir_answer fs dir = Inl e \<Longrightarrow>
      writeFileSync fs ?q content s =
        (Inl (Error (''Failed to write file at '' @ ?q @ '': '' @
                (case e of Error m \<Rightarrow> m | _ \<Rightarrow> ''Failed to write file''))),
         [Mkdir dir True])"
    using fq by (simp add: writeFileSync_def write_failure_def Let_def)
  have n2: "instance' s = Some i \<and> \<not> isTornDown_current s \<Longrightarrow>
      dir \<noteq> [] \<and> mkdir_answer fs dir = Inr () \<and> writeFile_answer fs ?q content = Inl e \<Longrightarrow>
      writeFileSync fs ?q content s =
        (Inl (Error (''Failed to write file at '' @ ?q @ '': '' @
                (case e of Error m \<Rightarrow> m | _ \<Rightarrow> ''Failed to write file''))),
         [Mkdir dir True, WriteFile ?q content])"
    using fq by (simp add: writeFileSync_def write_failure_def Let_def)
  have n3: "instance' s = Some i \<and> \<not> isTornDown_current s \<Longrightarrow>
      dir \<noteq> [] \<and> mkdir_answer fs dir = Inr () \<and> writeFile_answer fs ?q content = Inr () \<Longrightarrow>
      writeFileSync fs ?q content s = (Inr (), [Mkdir dir True, WriteFile ?q content])"
    using fq by (simp add: writeFileSync_def Let_def)
  have p1: "instance' s = Some i \<and> \<not> isTornDown_current s \<Longrightarrow>
      (p = name \<or> p = ''/'' @ name) \<and> writeFile_answer fs p content = Inl e \<Longrightarrow>
      writeFileSync fs p content s =
        (Inl (Error (''Failed to write file at '' @ p @ '': '' @
                (case e of Error m \<Rightarrow> m | _ \<Rightarrow> ''Failed to write file''))),
         [WriteFile p content])"
    using fp by (simp add: writeFileSync_def write_failure_def Let_def)
  have p2: "instance' s = Some i \<and> \<not> isTornDown_current s \<Longrightarrow>
      (p = name \<or> p = ''/'' @ name) \<and> writeFile_answer fs p content = Inr () \<Longrightarrow>
      writeFileSync fs p content s = (Inr (), [WriteFile p content])"
    using fp by (simp add: writeFileSync_def Let_def)
  have failing: "instance' s = Some i \<and> \<not> isTornDown_current s \<Longrightarrow>
      fst (writeFileSync fs path content s) = Inl x \<Longrightarrow> \<exists>m. x = Error m \<and> sublist path m" for x
    using write_failure_includes_path [of path]
    by (auto simp: writeFileSync_def Let_def split: sum.splits if_splits)
  from absent n1 n2 n3 p1 p2 failing show ?thesis by blast
qed

text \<open>The theorem at the fresh hook (no session), and at the booted hook over a file
  system that refuses every mkdir, one that refuses every write and one that accepts
  every call.\<close>

theorem writeFileSync_contract_witness:
  "CHR ''/'' \<notin> set ''index.js'' \<and>
   instance' useWebContainer_initial = None \<and>
   writeFileSync fs_accepting ''src/index.js'' ''x'' useWebContainer_initial =
     (Inl (Error ''WebContainer instance is not available''), []) \<and>
   instance' hook_booted = Some (WebContainer 1) \<and> \<not> isTornDown_current hook_booted \<and>
   writeFileSync fs_no_mkdir ''src/index.js'' ''x'' hook_booted =
     (Inl (Error ''Failed to write file at src/index.js: Failed to write file''),
      [Mkdir ''src'' True]) \<and>
   writeFileSync fs_read_only ''src/index.js'' ''x'' hook_booted =
     (Inl (Error ''Failed to write file at src/index.js: EROFS''),
      [Mkdir ''src'' True, WriteFile ''src/index.js'' ''x'']) \<and>
   writeFileSync fs_accepting ''src/index.js'' ''x'' hook_booted =
     (Inr (), [Mkdir ''src'' True, WriteFile ''src/index.js'' ''x'']) \<and>
   writeFileSync fs_read_only ''/index.js'' ''x'' hook_booted =
     (Inl (Error ''Failed to write file at /index.js: EROFS''), [WriteFile ''/index.js'' ''x'']) \<and>
   writeFileSync fs_accepting ''index.js'' ''x'' hook_booted =
     (Inr (), [WriteFile ''index.js'' ''x'']) \<and>
   sublist ''src/index.js'' ''Failed to write file at src/index.js: EROFS''"
proof -
  have n: "CHR ''/'' \<notin> set ''index.js''" by simp
  have live: "instance' hook_booted = Some (WebContainer 1)" "\<not> isTornDown_current hook_booted"
    by (simp_all add: hook_booted_eq useWebContainer_initial_def)
  have a: "instance' useWebContainer_initial = None"
    by (simp add: useWebContainer_initial_def)
  have m: "mkdir_answer fs_no_mkdir ''src'' = Inl (NonError None)"
    "mkdir_answer fs_read_only ''src'' = Inr ()"
    "writeFile_answer fs_read_only ''src/index.js'' ''x'' = Inl (Error ''EROFS'')"
    "mkdir_answer fs_accepting ''src'' = Inr ()"
    "writeFile_answer fs_accepting ''src/index.js'' ''x'' = Inr ()"
    "writeFile_answer fs_read_only ''/index.js'' ''x'' = Inl (Error ''EROFS'')"
    "writeFile_answer fs_accepting ''index.js'' ''x'' = Inr ()"
    by (simp_all add: fs_no_mkdir_def fs_read_only_def fs_accepting_def)
  note w0 = writeFileSync_contract [OF n, of useWebContainer_initial fs_accepting "''src/index.js''"
      "''x''" "WebContainer 1" "''src''" "Error ''x''" "''index.js''"]
  note w1 = writeFileSync_contract [OF n, of hook_booted fs_no_mkdir "''src/index.js''"
      "''x''" "WebContainer 1" "''src''" "NonError None" "''index.js''"]
  note w2 = writeFileSync_contract [OF n, of hook_booted fs_read_only "''src/index.js''"
      "''x''" "WebContainer 1" "''src''" "Error ''EROFS''" "''/index.js''"]
  note w3 = writeFileSync_contract [OF n, of hook_booted fs_accepting "''src/index.js''"
      "''x''" "WebContainer 1" "''src''" "Error ''x''" "''index.js''"]
  from w0 a have r0: "writeFileSync fs_accepting ''src/index.js'' ''x'' useWebContainer_initial =
     (Inl (Error ''WebContainer instance is not available''), [])" by blast
  from w1 live m have r1: "writeFileSync fs_no_mkdir ''src/index.js'' ''x'' hook_booted =
     (Inl (Error ''Failed to write file at src/index.js: Failed to write file''),
      [Mkdir ''src'' True])" by simp
  from w2 live m have r2: "writeFileSync fs_read_only ''src/index.js'' ''x'' hook_booted =
     (Inl (Error ''Failed to write file at src/index.js: EROFS''),
      [Mkdir ''src'' True, WriteFile ''src/index.js'' ''x''])" by simp
  from w3 live m have r3: "writeFileSync fs_accepting ''src/index.js'' ''x'' hook_booted =
     (Inr (), [Mkdir ''src'' True, WriteFile ''src/index.js'' ''x''])" by simp
  from w2 live m have r4: "writeFileSync fs_read_only ''/index.js'' ''x'' hook_booted =
     (Inl (Error ''Failed to write file at /index.js: EROFS''), [WriteFile ''/index.js'' ''x''])"
    by simp
  from w3 live m have r5: "writeFileSync fs_accepting ''index.js'' ''x'' hook_booted =
     (Inr (), [WriteFile ''index.js'' ''x''])" by simp
  from w2 live
  have "\<forall>x. fst (writeFileSync fs_read_only ''src/index.js'' ''x'' hook_booted) = Inl x \<longrightarrow>
            (\<exists>m. x = Error m \<and> sublist ''src/index.js'' m)"
    by blast
  with r2 have r6: "sublist ''src/index.js'' ''Failed to write file at src/index.js: EROFS''"
    by force
  from n a live r0 r1 r2 r3 r4 r5 r6 show ?thesis by blast
qed

text \<open>
  Claim C8 as stated fails where it says that the error of a call without a session
  includes the path: on the fresh hook, writing to the path \<^verbatim>\<open>x\<close> throws the fixed
  message, and \<^verbatim>\<open>x\<close> does not occur in it.
\<close>

theorem writeFileSync_absent_counterexample:
  "fst (writeFileSync fs_accepting ''x'' ''y'' useWebContainer_initial) =
     Inl (Error ''WebContainer instance is not available'') \<and>
   \<not> sublist ''x'' ''WebContainer instance is not available''"
  by (auto simp: writeFileSync_def useWebContainer_initial_def dest: set_mono_sublist)

subsection \<open>Release\<close>

text \<open>
  Claim C9, as the code has it. Both releases, the unmount cleanup and \<open>destroy\<close>, are
  idempotent, and each is without effect on the sandbox after the other; on a hook that
  never acquired a session \<open>destroy\<close> changes nothing and the cleanup only records the
  unmount. On a live session \<open>s\<close> with handle \<open>w\<close>, the unmount cleanup sets the torn-down
  flag, makes no teardown call and sets a timer of 100 ms whose firing tears \<open>w\<close> down;
  \<open>destroy\<close> sets the flag and tears \<open>w\<close> down in the same call, with no timer.
\<close>

theorem release_idempotent:
  assumes "containerRef s = Some w" and "instance' s = Some w" and "\<not> isTornDown_current s"
  shows "effect_cleanup (effect_cleanup t) = effect_cleanup t \<and>
         destroy (destroy t) = destroy t \<and>
         destroy (effect_cleanup s) = effect_cleanup s \<and>
         effect_cleanup (destroy s) = (destroy s)\<lparr>mounted := False\<rparr> \<and>
         destroy (t\<lparr>instance' := None\<rparr>) = t\<lparr>instance' := None\<rparr> \<and>
         effect_cleanup (t\<lparr>containerRef := None\<rparr>) = t\<lparr>containerRef := None, mounted := False\<rparr> \<and>
         isTornDown_current (effect_cleanup s) \<and>
         teardownCalls (effect_cleanup s) = teardownCalls s \<and>
         pendingTimers (effect_cleanup s) = pendingTimers s @ [(100, w)] \<and>
         teardownCalls (timer_fired (effect_cleanup (s\<lparr>pendingTimers := []\<rparr>))) = teardownCalls s @ [w] \<and>
         isTornDown_current (destroy s) \<and>
         teardownCalls (destroy s) = teardownCalls s @ [w] \<and>
         pendingTimers (destroy s) = pendingTimers s"
proof -
  have a: "effect_cleanup (effect_cleanup t) = effect_cleanup t"
    by (simp add: effect_cleanup_def Let_def split: option.splits)
  have b: "destroy (destroy t) = destroy t"
    by (simp add: destroy_def split: option.splits)
  have c: "destroy (t\<lparr>instance' := None\<rparr>) = t\<lparr>instance' := None\<rparr>"
    by (simp add: destroy_def)
  have d: "effect_cleanup (t\<lparr>containerRef := None\<rparr>) = t\<lparr>containerRef := None, mounted := False\<rparr>"
    by (simp add: effect_cleanup_def)
  from assms a b c d show ?thesis
    by (simp add: effect_cleanup_def destroy_def timer_fired_def Let_def)
qed

text \<open>The theorem at the booted hook, and at the fresh hook for the release without a
  session.\<close>

theorem release_idempotent_witness:
  "containerRef hook_booted = Some (WebContainer 1) \<and>
   instance' hook_booted = Some (WebContainer 1) \<and>
   \<not> isTornDown_current hook_booted \<and>
   effect_cleanup (effect_cleanup hook_booted) = effect_cleanup hook_booted \<and>
   destroy (destroy hook_booted) = destroy hook_booted \<and>
   destroy useWebContainer_initial = useWebContainer_initial \<and>
   teardownCalls (effect_cleanup hook_booted) = [] \<and>
   pendingTimers (effect_cleanup hook_booted) = [(100, WebContainer 1)] \<and>
   teardownCalls (timer_fired (effect_cleanup hook_booted)) = [WebContainer 1] \<and>
   teardownCalls (destroy hook_booted) = [WebContainer 1] \<and>
   pendingTimers (destroy hook_booted) = []"
proof -
  have h: "containerRef hook_booted = Some (WebContainer 1) \<and>
           instance' hook_booted = Some (WebContainer 1) \<and> \<not> isTornDown_current hook_booted \<and>
           teardownCalls hook_booted = [] \<and> pendingTimers hook_booted = [] \<and>
           hook_booted\<lparr>pendingTimers := []\<rparr> = hook_booted"
    by (simp add: hook_booted_eq useWebContainer_initial_def)
  have i: "useWebContainer_initial\<lparr>instance' := None\<rparr> = useWebContainer_initial"
    by (simp add: useWebContainer_initial_def)
  from h i release_idempotent [of hook_booted "WebContainer 1" hook_booted]
       release_idempotent [of hook_booted "WebContainer 1" useWebContainer_initial]
  show ?thesis by simp
qed

text \<open>
  Claim C9 as stated fails where it says that a release that takes effect schedules the
  teardown instead of performing it: \<open>destroy\<close> on the booted hook has made the teardown
  call when it returns and has set no timer.
\<close>

theorem release_destroy_counterexample:
  "teardownCalls (destroy hook_booted) = teardownCalls hook_booted @ [WebContainer 1] \<and>
   pendingTimers (destroy hook_booted) = []"
  by (simp add: hook_booted_eq useWebContainer_initial_def destroy_def)

section \<open>Properties of the pseudo-terminal view and the shell bridge\<close>

lemma terminal_attached_eq:
  "terminal_attached =
     \<lparr> term_current = Some \<lparr> surfaceId = 0, written = [msg_starting_shell], focused = False,
                              onDataListeners = [ShellProcess 1],
                              onResizeListeners = [ShellProcess 1] \<rparr>,
       shellProcessRef_current = Some (ShellProcess 1),
       isShellStarting_current = False, surfacesCreated = 1,
       processCalls = [SpawnShell 80 24] \<rparr>"
  by (simp add: terminal_attached_def startShell_resume_def startShell_begin_def on_surface_def
      terminal_effect_def TerminalComponent_initial_def new_Terminal_def Let_def)






lemma ref_writeToTerminal_eq:
  "ref_writeToTerminal d w =
     w\<lparr>terminalRef_current := map_option (writeToTerminal d) (terminalRef_current w)\<rparr>"
  by (simp add: ref_writeToTerminal_def split: option.splits)

lemma fold_ref_writeToTerminal_eq:
  "fold ref_writeToTerminal ds w =
     w\<lparr>terminalRef_current := map_option (fold writeToTerminal ds) (terminalRef_current w)\<rparr>"
  by (induction ds arbitrary: w)
     (simp_all add: ref_writeToTerminal_eq option.map_comp comp_def option.map_id id_def
        option.map_ident)

lemma writeToTerminal_live:
  "(term_current (writeToTerminal d tc) = None) = (term_current tc = None)"
  by (simp add: writeToTerminal_def split: option.splits)

lemma fold_writeToTerminal_live:
  "(term_current (fold writeToTerminal ds tc) = None) = (term_current tc = None)"
  by (induction ds arbitrary: tc) (simp_all add: writeToTerminal_live)

lemma fold_writeToTerminal_dead:
  "term_current tc = None \<Longrightarrow> fold writeToTerminal ds tc = tc"
  by (induction ds) (simp_all add: writeToTerminal_def)

lemma write_lands:
  "terminal_live v \<Longrightarrow>
     terminal_live (ref_writeToTerminal d v) \<and>
     terminal_text (ref_writeToTerminal d v) = terminal_text v @ [d]"
  by (auto simp: terminal_live_def terminal_text_def ref_writeToTerminal_def writeToTerminal_def
      split: option.splits)

lemma writeToTerminal_dead: "term_current tc = None \<Longrightarrow> writeToTerminal d tc = tc"
  by (simp add: writeToTerminal_def)

subsection \<open>Resize events\<close>




section \<open>Properties of the session setup orchestrator\<close>

lemma show_int_1: "show_int 1 = ''1''"
  by code_simp

lemma show_int_137: "show_int 137 = ''137''"
  by code_simp

lemma show_int_minus_1: "show_int (- 1) = ''-1''"
  by code_simp

lemma setup_start_dead:
  "terminalRef_current w = Some tc \<Longrightarrow> term_current tc = None \<Longrightarrow>
     terminalRef_current (snd (setup_start ext w)) = Some tc"
  by (simp add: setup_start_def ref_writeToTerminal_eq writeToTerminal_dead Let_def
      split: option.splits prod.splits settled.splits)

lemma setup_install_dead:
  "terminalRef_current w = Some tc \<Longrightarrow> term_current tc = None \<Longrightarrow>
     terminalRef_current (snd (setup_install ext w)) = Some tc"
  by (simp add: setup_install_def ref_writeToTerminal_eq fold_ref_writeToTerminal_eq
      writeToTerminal_dead fold_writeToTerminal_dead setup_start_dead Let_def
      split: settled.splits)

lemma setup_mount_dead:
  "terminalRef_current w = Some tc \<Longrightarrow> term_current tc = None \<Longrightarrow>
     terminalRef_current (snd (setup_mount ext props w)) = Some tc"
  by (simp add: setup_mount_def ref_writeToTerminal_eq writeToTerminal_dead setup_install_dead
      Let_def split: settled.splits sum.splits)

lemma setup_body_dead:
  "terminalRef_current w = Some tc \<Longrightarrow> term_current tc = None \<Longrightarrow>
     terminalRef_current (snd (setup_body ext props w)) = Some tc"
  by (simp add: setup_body_def ref_writeToTerminal_eq writeToTerminal_dead setup_mount_dead
      Let_def split: option.splits)

lemma setup_catch_dead:
  "terminalRef_current w = Some tc \<Longrightarrow> term_current tc = None \<Longrightarrow>
     terminalRef_current (snd (setup_catch err w)) = Some tc"
  by (cases err)
     (simp_all add: setup_catch_def ref_writeToTerminal_eq writeToTerminal_dead Let_def)

lemma setupContainer_dead:
  assumes "terminalRef_current w = Some tc" and "term_current tc = None"
  shows "terminalRef_current (snd (setupContainer ext props rendered w)) = Some tc"
proof -
  let ?w = "w\<lparr>isSetupInProgress := True, internalError := None\<rparr>"
  have b: "terminalRef_current (snd (setup_body ext props ?w)) = Some tc"
    using assms by (intro setup_body_dead) simp_all
  have c: "terminalRef_current (snd (setup_catch err (snd (setup_body ext props ?w)))) = Some tc"
    for err
    using b assms(2) by (rule setup_catch_dead)
  show ?thesis
    using assms b c
    by (cases "setup_body ext props ?w"; cases "fst (setup_body ext props ?w)")
       (auto simp: setupContainer_def)
qed

lemma setup_start_flag: "isSetupInProgress w \<Longrightarrow> flag_agrees (setup_start ext w)"
  by (simp add: flag_agrees_def setup_start_def ref_writeToTerminal_eq Let_def
      split: option.splits prod.splits settled.splits)

lemma setup_install_flag: "isSetupInProgress w \<Longrightarrow> flag_agrees (setup_install ext w)"
proof -
  assume a: "isSetupInProgress w"
  have s: "flag_agrees (setup_start ext w')" if "isSetupInProgress w'" for w'
    using that by (rule setup_start_flag)
  show ?thesis
    using a
    by (auto simp: setup_install_def ref_writeToTerminal_eq fold_ref_writeToTerminal_eq Let_def
        flag_agrees_def [of "(Returned, x)" for x] flag_agrees_def [of "(Awaiting, x)" for x]
        flag_agrees_def [of "(Threw e, x)" for e x]
        intro!: s split: settled.splits)
qed

lemma setup_mount_flag: "isSetupInProgress w \<Longrightarrow> flag_agrees (setup_mount ext props w)"
proof -
  assume a: "isSetupInProgress w"
  have s: "flag_agrees (setup_install ext w')" if "isSetupInProgress w'" for w'
    using that by (rule setup_install_flag)
  show ?thesis
    using a
    by (auto simp: setup_mount_def ref_writeToTerminal_eq Let_def
        flag_agrees_def [of "(Returned, x)" for x] flag_agrees_def [of "(Awaiting, x)" for x]
        flag_agrees_def [of "(Threw e, x)" for e x]
        intro!: s split: settled.splits sum.splits)
qed

lemma setup_body_flag: "isSetupInProgress w \<Longrightarrow> flag_agrees (setup_body ext props w)"
proof -
  assume a: "isSetupInProgress w"
  have s: "flag_agrees (setup_mount ext props w')" if "isSetupInProgress w'" for w'
    using that by (rule setup_mount_flag)
  show ?thesis
    using a
    by (auto simp: setup_body_def ref_writeToTerminal_eq Let_def
        flag_agrees_def [of "(Returned, x)" for x] flag_agrees_def [of "(Awaiting, x)" for x]
        flag_agrees_def [of "(Threw e, x)" for e x]
        intro!: s split: option.splits)
qed

lemma setup_start_thrown:
  "no_nullish ext props \<Longrightarrow> fst (setup_start ext w) \<noteq> Threw Nullish"
  by (auto simp: no_nullish_def setup_start_def ref_writeToTerminal_eq Let_def
      split: option.splits prod.splits settled.splits)

lemma setup_install_thrown:
  "no_nullish ext props \<Longrightarrow> fst (setup_install ext w) \<noteq> Threw Nullish"
proof -
  assume a: "no_nullish ext props"
  have s: "fst (setup_start ext w') \<noteq> Threw Nullish" for w'
    using a by (rule setup_start_thrown)
  show ?thesis
    using a s
    by (auto simp: no_nullish_def setup_install_def ref_writeToTerminal_eq
        fold_ref_writeToTerminal_eq Let_def split: settled.splits)
qed

lemma setup_mount_thrown:
  "no_nullish ext props \<Longrightarrow> fst (setup_mount ext props w) \<noteq> Threw Nullish"
proof -
  assume a: "no_nullish ext props"
  have s: "fst (setup_install ext w') \<noteq> Threw Nullish" for w'
    using a by (rule setup_install_thrown)
  show ?thesis
    using a s
    by (auto simp: no_nullish_def setup_mount_def ref_writeToTerminal_eq Let_def
        split: settled.splits sum.splits)
qed

lemma setup_body_thrown:
  "no_nullish ext props \<Longrightarrow> fst (setup_body ext props w) \<noteq> Threw Nullish"
proof -
  assume a: "no_nullish ext props"
  have s: "fst (setup_mount ext props w') \<noteq> Threw Nullish" for w'
    using a by (rule setup_mount_thrown)
  show ?thesis
    using s
    by (auto simp: setup_body_def ref_writeToTerminal_eq Let_def split: option.splits)
qed

lemma setup_catch_returns:
  "err \<noteq> Nullish \<Longrightarrow>
     fst (setup_catch err w) = Returned \<and> \<not> isSetupInProgress (snd (setup_catch err w))"
  by (cases err) (simp_all add: setup_catch_def ref_writeToTerminal_eq Let_def)

lemma setupContainer_flag:
  assumes "instanceProp props = Some i" and "\<not> isSetupComplete rendered"
    and "\<not> isSetupInProgress rendered" and "\<not> parentLoading props"
    and "no_nullish ext props"
  shows "(fst (setupContainer ext props rendered w) = Returned \<and>
          \<not> isSetupInProgress (snd (setupContainer ext props rendered w))) \<or>
         (fst (setupContainer ext props rendered w) = Awaiting \<and>
          isSetupInProgress (snd (setupContainer ext props rendered w)))"
proof -
  let ?w = "w\<lparr>isSetupInProgress := True, internalError := None\<rparr>"
  obtain f w' where b: "setup_body ext props ?w = (f, w')" by (cases "setup_body ext props ?w")
  have fa: "flag_agrees (setup_body ext props ?w)" by (rule setup_body_flag) simp
  have nn: "fst (setup_body ext props ?w) \<noteq> Threw Nullish"
    using assms(5) by (rule setup_body_thrown)
  show ?thesis
  proof (cases f)
    case Returned
    with b fa assms(1-4) show ?thesis by (simp add: setupContainer_def flag_agrees_def)
  next
    case Awaiting
    with b fa assms(1-4) show ?thesis by (simp add: setupContainer_def flag_agrees_def)
  next
    case (Threw err)
    with b nn have "err \<noteq> Nullish" by auto
    from setup_catch_returns [OF this, of w'] Threw b assms(1-4) show ?thesis
      by (simp add: setupContainer_def)
  qed
qed

lemma scripts_dev_eq:
  "pkg \<noteq> JNull \<Longrightarrow>
     scripts_dev pkg = Inr (case dev_script_of pkg of None \<Rightarrow> False | Some d \<Rightarrow> truthy d)"
  by (cases pkg; simp add: scripts_dev_def split: option.splits)
     (auto simp: scripts_dev_def split: option.splits json.splits)

lemma scripts_dev_null: "\<exists>e. scripts_dev JNull = Inl e"
  by (simp add: scripts_dev_def)

subsection \<open>Operations on a terminal without a surface\<close>

text \<open>
  Claim C10. While \<^verbatim>\<open>term.current\<close> is unset, which is the case before the surface is
  created and after the cleanup has disposed it, \<open>writeToTerminal\<close>, \<open>clearTerminal\<close> and
  \<open>focusTerminal\<close> return the component unchanged; none of them has a failing branch. A
  write through the parent's ref is then dropped, and a whole run of the setup, from
  whichever render it is called, leaves such a terminal as it was: its narrative output
  is lost without an error.
\<close>

theorem terminal_operations_silent:
  assumes "term_current tc = None"
  shows "writeToTerminal d tc = tc \<and> clearTerminal tc = tc \<and> focusTerminal tc = tc \<and>
         term_current TerminalComponent_initial = None \<and>
         term_current (terminal_cleanup tc') = None \<and>
         ref_writeToTerminal d (w\<lparr>terminalRef_current := Some tc\<rparr>) =
           w\<lparr>terminalRef_current := Some tc\<rparr> \<and>
         terminalRef_current
           (snd (setupContainer ext props rendered (w\<lparr>terminalRef_current := Some tc\<rparr>))) =
           Some tc"
proof -
  have "terminalRef_current
           (snd (setupContainer ext props rendered (w\<lparr>terminalRef_current := Some tc\<rparr>))) =
           Some tc"
    using assms by (intro setupContainer_dead) simp_all
  with assms show ?thesis
    by (simp add: writeToTerminal_def clearTerminal_def focusTerminal_def
        TerminalComponent_initial_def terminal_cleanup_def ref_writeToTerminal_def Let_def)
qed

text \<open>The theorem at the initial component and at the component after the cleanup of
  an attached terminal.\<close>

theorem terminal_operations_silent_witness:
  "term_current TerminalComponent_initial = None \<and>
   term_current (terminal_cleanup terminal_attached) = None \<and>
   writeToTerminal ''x'' TerminalComponent_initial = TerminalComponent_initial \<and>
   clearTerminal TerminalComponent_initial = TerminalComponent_initial \<and>
   focusTerminal TerminalComponent_initial = TerminalComponent_initial \<and>
   writeToTerminal ''x'' (terminal_cleanup terminal_attached) = terminal_cleanup terminal_attached \<and>
   clearTerminal (terminal_cleanup terminal_attached) = terminal_cleanup terminal_attached \<and>
   focusTerminal (terminal_cleanup terminal_attached) = terminal_cleanup terminal_attached \<and>
   terminalRef_current
     (snd (setupContainer ext_fresh props_normal
             (WebContainerPreview_initial (Some TerminalComponent_initial))
             (WebContainerPreview_initial (Some TerminalComponent_initial)))) =
     Some TerminalComponent_initial"
proof -
  have a: "term_current TerminalComponent_initial = None"
    by (simp add: TerminalComponent_initial_def)
  have b: "term_current (terminal_cleanup terminal_attached) = None"
    by (simp add: terminal_cleanup_def Let_def)
  have c: "(WebContainerPreview_initial None)\<lparr>terminalRef_current := Some TerminalComponent_initial\<rparr>
           = WebContainerPreview_initial (Some TerminalComponent_initial)"
    by (simp add: WebContainerPreview_initial_def)
  from terminal_operations_silent [OF a, of "''x''" terminal_attached "WebContainerPreview_initial None"
         ext_fresh props_normal "WebContainerPreview_initial (Some TerminalComponent_initial)"]
       terminal_operations_silent [OF b, of "''x''" terminal_attached "WebContainerPreview_initial None"
         ext_fresh props_normal "WebContainerPreview_initial (Some TerminalComponent_initial)"] c
  show ?thesis by simp
qed

subsection \<open>Reconnecting\<close>

text \<open>
  Claim C1, as the code has it. For every run of the setup (an instance is present, the
  render saw the setup neither complete nor in progress, the parent is not loading) in
  which the first read of \<^verbatim>\<open>package.json\<close> resolves with a non-empty text and
  \<^verbatim>\<open>forceResetup\<close> is false, the run returns after exactly two calls on the sandbox, the
  read and the registration of the \<^verbatim>\<open>server-ready\<close> listener of the reconnect branch; it
  writes the reconnect line, marks the setup complete and clears the in-progress flag.
  It makes no mount call and spawns nothing.
\<close>

theorem reconnect_when_manifest_nonempty:
  assumes "instanceProp props = Some i" and "\<not> isSetupComplete rendered"
    and "\<not> isSetupInProgress rendered" and "\<not> parentLoading props"
    and "readFile_detect ext = Resolved content" and "content \<noteq> []" and "\<not> forceResetup props"
  shows "setupContainer ext props rendered w =
           (Returned,
            (ref_writeToTerminal msg_reconnecting w)
              \<lparr>internalError := None, isSetupComplete := True, isSetupInProgress := False,
               sandboxCalls := sandboxCalls w @
                 [FsReadFile ''package.json'', OnServerReady ReconnectListener]\<rparr>)"
  using assms
  by (simp add: setupContainer_def setup_body_def detect_reconnect_def ref_writeToTerminal_eq
      Let_def)

text \<open>The theorem at a sandbox whose manifest reads \<^verbatim>\<open>{}\<close>.\<close>

theorem reconnect_when_manifest_nonempty_witness:
  "instanceProp props_normal = Some (WebContainer 1) \<and> \<not> isSetupComplete preview_live \<and>
   \<not> isSetupInProgress preview_live \<and> \<not> parentLoading props_normal \<and>
   \<not> forceResetup props_normal \<and>
   setupContainer (ext_fresh\<lparr>readFile_detect := Resolved ''{}''\<rparr>) props_normal preview_live
     preview_live =
     (Returned,
      (ref_writeToTerminal msg_reconnecting preview_live)
        \<lparr>internalError := None, isSetupComplete := True, isSetupInProgress := False,
         sandboxCalls := [FsReadFile ''package.json'', OnServerReady ReconnectListener]\<rparr>)"
proof -
  have p: "instanceProp props_normal = Some (WebContainer 1)" "\<not> parentLoading props_normal"
    "\<not> forceResetup props_normal"
    by (simp_all add: props_normal_def)
  have w: "\<not> isSetupComplete preview_live" "\<not> isSetupInProgress preview_live"
    "sandboxCalls preview_live = []"
    by (simp_all add: preview_live_def WebContainerPreview_initial_def)
  have r: "readFile_detect (ext_fresh\<lparr>readFile_detect := Resolved ''{}''\<rparr>) = Resolved ''{}''"
    "''{}'' \<noteq> []"
    by simp_all
  from reconnect_when_manifest_nonempty [OF p(1) w(1) w(2) p(2) r(1) r(2) p(3), of preview_live]
       p w
  show ?thesis by simp
qed

text \<open>
  Claim C1 as stated fails for a manifest that is readable and empty: the read resolves
  with the empty text, which is falsy, so with \<^verbatim>\<open>forceResetup\<close> false the run mounts,
  installs and starts.
\<close>

theorem reconnect_empty_manifest_counterexample:
  "readFile_detect (ext_fresh\<lparr>readFile_detect := Resolved []\<rparr>) = Resolved [] \<and>
   \<not> forceResetup props_normal \<and>
   sandboxCalls (snd (setupContainer (ext_fresh\<lparr>readFile_detect := Resolved []\<rparr>) props_normal
                        (WebContainerPreview_initial None) (WebContainerPreview_initial None))) =
     [FsReadFile ''package.json'',
      Mount [(''package.json'', FileNode manifest_dev_text)],
      FsRm ''package-lock.json'',
      Spawn ''npm'' [''install'', ''--no-optional'', ''--legacy-peer-deps''],
      FsReadFile ''package.json'',
      Spawn ''npm'' [''run'', ''dev''],
      OnServerReady StartListener]"
  by (simp add: setupContainer_def setup_body_def setup_mount_def setup_install_def
      setup_start_def detect_reconnect_def ref_writeToTerminal_eq fold_ref_writeToTerminal_eq
      Let_def ext_fresh_def props_normal_def WebContainerPreview_initial_def
      start_command_def scripts_dev_def parse_known_def manifest_dev_def)

subsection \<open>A failed installation\<close>

text \<open>
  Claim C2. For every run in which the installation is reached and its process exits
  with a code other than 0: the run returns normally (the outer \<^verbatim>\<open>catch\<close> does not run),
  the error state holds the message \<^verbatim>\<open>npm install failed with code\<close> followed by the exit
  code, which is not empty, the setup is marked complete and no longer in progress, the
  step stays at 3, the calls on the sandbox end with the spawn of the installation (no
  run script is spawned), the failure and the hint are written to the terminal after the
  output of the installation, and a terminal with a live surface still has one: the next
  write to it is appended.
\<close>

theorem install_failure_is_soft:
  assumes "instanceProp props = Some i" and "\<not> isSetupComplete rendered"
    and "\<not> isSetupInProgress rendered"
    and "\<not> parentLoading props"
    and "detect_reconnect ext props = Some False"
    and "transformToWebContainerFormat ext (templateData props) = Inr files"
    and "mount_answer ext = Resolved ()" and "rm_answer ext \<noteq> Pending"
    and "spawn_install ext = Resolved ()"
    and "install_exit ext = Resolved code" and "code \<noteq> 0"
  shows "fst (setupContainer ext props rendered w) = Returned \<and>
         internalError (snd (setupContainer ext props rendered w)) =
           Some ([CHR 0xE2, CHR 0x9D, CHR 0x8C] @ '' npm install failed with code '' @
                 show_int code @ ''. See terminal for details.'') \<and>
         internalError (snd (setupContainer ext props rendered w)) \<noteq> Some [] \<and>
         isSetupComplete (snd (setupContainer ext props rendered w)) \<and>
         \<not> isSetupInProgress (snd (setupContainer ext props rendered w)) \<and>
         currentStep (snd (setupContainer ext props rendered w)) = 3 \<and>
         sandboxCalls (snd (setupContainer ext props rendered w)) =
           sandboxCalls w @
             [FsReadFile ''package.json'', Mount files, FsRm ''package-lock.json'',
              Spawn ''npm'' [''install'', ''--no-optional'', ''--legacy-peer-deps'']] \<and>
         terminalRef_current (snd (setupContainer ext props rendered w)) =
           map_option
             (fold writeToTerminal
                ([msg_preparing, msg_mounted, msg_installing] @
                 (if rm_answer ext = Resolved () then [msg_lock_removed] else []) @
                 install_output ext @
                 [crlf @ msg_install_failed code @ crlf, msg_manual]))
             (terminalRef_current w) \<and>
         terminal_live (snd (setupContainer ext props rendered w)) = terminal_live w \<and>
         (terminal_live w \<longrightarrow>
            terminal_text (ref_writeToTerminal d (snd (setupContainer ext props rendered w))) =
              terminal_text (snd (setupContainer ext props rendered w)) @ [d])"
proof -
  let ?r = "setupContainer ext props rendered w"
  have t: "terminalRef_current (snd ?r) =
           map_option
             (fold writeToTerminal
                ([msg_preparing, msg_mounted, msg_installing] @
                 (if rm_answer ext = Resolved () then [msg_lock_removed] else []) @
                 install_output ext @
                 [crlf @ msg_install_failed code @ crlf, msg_manual]))
             (terminalRef_current w)"
    using assms
    by (cases "rm_answer ext")
       (simp_all add: setupContainer_def setup_body_def setup_mount_def setup_install_def
          ref_writeToTerminal_eq fold_ref_writeToTerminal_eq Let_def option.map_comp comp_def)
  have l: "terminal_live (snd ?r) = terminal_live w"
    unfolding terminal_live_def t
    by (cases "terminalRef_current w") (simp_all add: fold_writeToTerminal_live writeToTerminal_live del: not_None_eq)
  have rest: "fst ?r = Returned \<and>
         internalError (snd ?r) =
           Some ([CHR 0xE2, CHR 0x9D, CHR 0x8C] @ '' npm install failed with code '' @
                 show_int code @ ''. See terminal for details.'') \<and>
         internalError (snd ?r) \<noteq> Some [] \<and>
         isSetupComplete (snd ?r) \<and> \<not> isSetupInProgress (snd ?r) \<and>
         currentStep (snd ?r) = 3 \<and>
         sandboxCalls (snd ?r) =
           sandboxCalls w @
             [FsReadFile ''package.json'', Mount files, FsRm ''package-lock.json'',
              Spawn ''npm'' [''install'', ''--no-optional'', ''--legacy-peer-deps'']]"
    using assms
    by (cases "rm_answer ext")
       (simp_all add: setupContainer_def setup_body_def setup_mount_def setup_install_def
          ref_writeToTerminal_eq fold_ref_writeToTerminal_eq Let_def msg_install_failed_def
          sym_cross_def)
  from l write_lands [of "snd ?r" d]
  have k: "terminal_live w \<longrightarrow>
            terminal_text (ref_writeToTerminal d (snd ?r)) = terminal_text (snd ?r) @ [d]"
    by simp
  from t l rest k show ?thesis by blast
qed

text \<open>The theorem at the sandbox whose installation exits with code 1, on a preview
  with a live terminal.\<close>

theorem install_failure_is_soft_witness:
  "instanceProp props_normal = Some (WebContainer 1) \<and> \<not> isSetupComplete preview_live \<and>
   \<not> isSetupInProgress preview_live \<and> \<not> parentLoading props_normal \<and>
   show_int 137 = ''137'' \<and> show_int (- 1) = ''-1'' \<and>
   install_exit (ext_fresh\<lparr>install_exit := Resolved 1\<rparr>) = Resolved 1 \<and>
   terminal_live preview_live \<and>
   fst (setupContainer (ext_fresh\<lparr>install_exit := Resolved 1\<rparr>) props_normal preview_live
          preview_live) = Returned \<and>
   internalError (snd (setupContainer (ext_fresh\<lparr>install_exit := Resolved 1\<rparr>) props_normal
                         preview_live preview_live)) =
     Some ([CHR 0xE2, CHR 0x9D, CHR 0x8C] @
           '' npm install failed with code 1. See terminal for details.'') \<and>
   isSetupComplete (snd (setupContainer (ext_fresh\<lparr>install_exit := Resolved 1\<rparr>) props_normal
                           preview_live preview_live)) \<and>
   \<not> isSetupInProgress (snd (setupContainer (ext_fresh\<lparr>install_exit := Resolved 1\<rparr>)
                                props_normal preview_live preview_live)) \<and>
   currentStep (snd (setupContainer (ext_fresh\<lparr>install_exit := Resolved 1\<rparr>) props_normal
                       preview_live preview_live)) = 3 \<and>
   sandboxCalls (snd (setupContainer (ext_fresh\<lparr>install_exit := Resolved 1\<rparr>) props_normal
                        preview_live preview_live)) =
     [FsReadFile ''package.json'', Mount [(''package.json'', FileNode manifest_dev_text)],
      FsRm ''package-lock.json'',
      Spawn ''npm'' [''install'', ''--no-optional'', ''--legacy-peer-deps'']] \<and>
   terminal_live (snd (setupContainer (ext_fresh\<lparr>install_exit := Resolved 1\<rparr>) props_normal
                         preview_live preview_live)) \<and>
   terminal_text
     (ref_writeToTerminal ''npm install''
        (snd (setupContainer (ext_fresh\<lparr>install_exit := Resolved 1\<rparr>) props_normal
                preview_live preview_live))) =
     terminal_text (snd (setupContainer (ext_fresh\<lparr>install_exit := Resolved 1\<rparr>) props_normal
                           preview_live preview_live)) @ [''npm install'']"
proof -
  let ?ext = "ext_fresh\<lparr>install_exit := Resolved 1\<rparr>"
  have p: "instanceProp props_normal = Some (WebContainer 1)" "\<not> parentLoading props_normal"
    by (simp_all add: props_normal_def)
  have w: "\<not> isSetupComplete preview_live" "\<not> isSetupInProgress preview_live"
    "sandboxCalls preview_live = []"
    by (simp_all add: preview_live_def WebContainerPreview_initial_def)
  have l: "terminal_live preview_live"
    by (simp add: terminal_live_def preview_live_def WebContainerPreview_initial_def
        terminal_attached_eq)
  have e: "detect_reconnect ?ext props_normal = Some False"
    "transformToWebContainerFormat ?ext (templateData props_normal) =
       Inr [(''package.json'', FileNode manifest_dev_text)]"
    "mount_answer ?ext = Resolved ()" "rm_answer ?ext \<noteq> Pending"
    "spawn_install ?ext = Resolved ()" "install_exit ?ext = Resolved 1" "(1::int) \<noteq> 0"
    by (simp_all add: ext_fresh_def detect_reconnect_def)
  from install_failure_is_soft [OF p(1) w(1) w(2) p(2) e, of preview_live "''npm install''"]
       p w l e(6) show_int_1 show_int_137 show_int_minus_1
  show ?thesis by simp
qed

subsection \<open>Re-entry\<close>

text \<open>
  Claim C4, as the code has it. A call of \<open>setupContainer\<close> from a render that saw the
  in-progress flag set returns the current state unchanged: no call on the sandbox is
  added. A run that starts (instance present, the render saw the setup neither complete
  nor in progress, parent not loading) and in which no thrown value is \<^verbatim>\<open>null\<close> or
  \<^verbatim>\<open>undefined\<close> either returns with the flag clear, whichever way it ended (reconnected,
  started, installation failed, an error caught), or is suspended at an unsettled
  \<^verbatim>\<open>await\<close> with the flag set; and then a call from any render of the suspended state
  returns the current state unchanged. The flag is cleared by a state write on each of
  these paths; the function has no \<^verbatim>\<open>finally\<close> block.
\<close>

theorem setup_reentry_guard:
  "(isSetupInProgress rendered \<longrightarrow> setupContainer ext props rendered w = (Returned, w)) \<and>
   (instanceProp props = Some i \<and> \<not> isSetupComplete rendered \<and> \<not> isSetupInProgress rendered \<and>
    \<not> parentLoading props \<and> no_nullish ext props \<longrightarrow>
      (fst (setupContainer ext props rendered w) = Returned \<and>
       \<not> isSetupInProgress (snd (setupContainer ext props rendered w))) \<or>
      (fst (setupContainer ext props rendered w) = Awaiting \<and>
       isSetupInProgress (snd (setupContainer ext props rendered w)) \<and>
       setupContainer ext' props' (snd (setupContainer ext props rendered w)) w' =
         (Returned, w')))"
proof -
  have g: "isSetupInProgress v \<Longrightarrow> setupContainer e p v u = (Returned, u)" for e p v u
    by (simp add: setupContainer_def)
  have f: "instanceProp props = Some i \<and> \<not> isSetupComplete rendered \<and>
      \<not> isSetupInProgress rendered \<and> \<not> parentLoading props \<and> no_nullish ext props \<Longrightarrow>
      (fst (setupContainer ext props rendered w) = Returned \<and>
       \<not> isSetupInProgress (snd (setupContainer ext props rendered w))) \<or>
      (fst (setupContainer ext props rendered w) = Awaiting \<and>
       isSetupInProgress (snd (setupContainer ext props rendered w)))"
    using setupContainer_flag [of props i rendered ext w] by blast
  from g f show ?thesis by blast
qed

text \<open>The theorem at a run suspended at the exit of the installation, and at the four
  ways a run ends: reconnect, success, failed installation, rejected mount.\<close>

theorem setup_reentry_guard_witness:
  "instanceProp props_normal = Some (WebContainer 1) \<and> \<not> parentLoading props_normal \<and>
   \<not> isSetupComplete preview_live \<and> \<not> isSetupInProgress preview_live \<and>
   no_nullish ext_installing props_normal \<and>
   fst (setupContainer ext_installing props_normal preview_live preview_live) = Awaiting \<and>
   isSetupInProgress preview_suspended \<and>
   setupContainer ext_fresh props_normal preview_suspended preview_suspended =
     (Returned, preview_suspended) \<and>
   \<not> isSetupInProgress
     (snd (setupContainer (ext_fresh\<lparr>readFile_detect := Resolved ''{}''\<rparr>) props_normal
             preview_live preview_live)) \<and>
   \<not> isSetupInProgress (snd (setupContainer ext_fresh props_normal preview_live preview_live)) \<and>
   \<not> isSetupInProgress
     (snd (setupContainer (ext_fresh\<lparr>install_exit := Resolved 1\<rparr>) props_normal preview_live
             preview_live)) \<and>
   \<not> isSetupInProgress
     (snd (setupContainer (ext_fresh\<lparr>mount_answer := Rejected (Error ''boom'')\<rparr>) props_normal
             preview_live preview_live))"
proof -
  let ?e1 = "ext_fresh\<lparr>readFile_detect := Resolved ''{}''\<rparr>"
  let ?e3 = "ext_fresh\<lparr>install_exit := Resolved 1\<rparr>"
  let ?e4 = "ext_fresh\<lparr>mount_answer := Rejected (Error ''boom'')\<rparr>"
  have w: "\<not> isSetupInProgress preview_live" "\<not> isSetupComplete preview_live"
    by (simp_all add: preview_live_def WebContainerPreview_initial_def)
  have p: "instanceProp props_normal = Some (WebContainer 1)" "\<not> parentLoading props_normal"
    "\<not> forceResetup props_normal"
    by (simp_all add: props_normal_def)
  have n: "no_nullish ext_installing props_normal" "no_nullish ?e1 props_normal"
    "no_nullish ext_fresh props_normal" "no_nullish ?e3 props_normal"
    "no_nullish ?e4 props_normal"
    by (simp_all add: no_nullish_def ext_installing_def ext_fresh_def)
  have f0: "fst (setupContainer ext_installing props_normal preview_live preview_live) = Awaiting"
    using w p
    by (simp add: setupContainer_def setup_body_def setup_mount_def setup_install_def
        detect_reconnect_def ext_installing_def ext_fresh_def ref_writeToTerminal_eq
        fold_ref_writeToTerminal_eq Let_def)
  have f1: "fst (setupContainer ?e1 props_normal preview_live preview_live) = Returned"
    using w p
    by (simp add: setupContainer_def setup_body_def detect_reconnect_def ext_fresh_def
        ref_writeToTerminal_eq Let_def)
  have f2: "fst (setupContainer ext_fresh props_normal preview_live preview_live) = Returned"
    using w p
    by (simp add: setupContainer_def setup_body_def setup_mount_def setup_install_def
        setup_start_def start_command_def scripts_dev_def parse_known_def manifest_dev_def
        detect_reconnect_def ext_fresh_def ref_writeToTerminal_eq fold_ref_writeToTerminal_eq
        Let_def)
  have f3: "fst (setupContainer ?e3 props_normal preview_live preview_live) = Returned"
    using w p
    by (simp add: setupContainer_def setup_body_def setup_mount_def setup_install_def
        detect_reconnect_def ext_fresh_def ref_writeToTerminal_eq fold_ref_writeToTerminal_eq
        Let_def)
  have f4: "fst (setupContainer ?e4 props_normal preview_live preview_live) = Returned"
    using w p
    by (simp add: setupContainer_def setup_body_def setup_mount_def setup_catch_def
        detect_reconnect_def ext_fresh_def ref_writeToTerminal_eq Let_def)
  note t0 = setup_reentry_guard [of preview_live ext_installing props_normal preview_live
      "WebContainer 1" ext_fresh props_normal preview_suspended]
  note t1 = setup_reentry_guard [of preview_live ?e1 props_normal preview_live
      "WebContainer 1" ext_fresh props_normal preview_live]
  note t2 = setup_reentry_guard [of preview_live ext_fresh props_normal preview_live
      "WebContainer 1" ext_fresh props_normal preview_live]
  note t3 = setup_reentry_guard [of preview_live ?e3 props_normal preview_live
      "WebContainer 1" ext_fresh props_normal preview_live]
  note t4 = setup_reentry_guard [of preview_live ?e4 props_normal preview_live
      "WebContainer 1" ext_fresh props_normal preview_live]
  from t0 w p n f0 have r0: "isSetupInProgress preview_suspended \<and>
      setupContainer ext_fresh props_normal preview_suspended preview_suspended =
        (Returned, preview_suspended)"
    by (simp add: preview_suspended_def)
  from t1 w p n f1 have r1: "\<not> isSetupInProgress
     (snd (setupContainer ?e1 props_normal preview_live preview_live))" by simp
  from t2 w p n f2 have r2: "\<not> isSetupInProgress
     (snd (setupContainer ext_fresh props_normal preview_live preview_live))" by simp
  from t3 w p n f3 have r3: "\<not> isSetupInProgress
     (snd (setupContainer ?e3 props_normal preview_live preview_live))" by simp
  from t4 w p n f4 have r4: "\<not> isSetupInProgress
     (snd (setupContainer ?e4 props_normal preview_live preview_live))" by simp
  from w p n f0 r0 r1 r2 r3 r4 show ?thesis by blast
qed

text \<open>
  Claim C4 as stated fails in two ways. A second call from the render that started the
  run, which saw the flag clear, is not stopped by the guard while the run is suspended
  at the exit of the installation: the read, the mount, the removal and the spawn are
  made a second time. And when the mount rejects with \<^verbatim>\<open>undefined\<close>, the \<^verbatim>\<open>catch\<close> throws
  before it clears the flag: the call ends by throwing, with the flag set and the setup
  not complete.
\<close>

theorem setup_reentry_counterexample:
  "fst (setupContainer ext_installing props_normal preview_live preview_live) = Awaiting \<and>
   isSetupInProgress preview_suspended \<and>
   sandboxCalls preview_suspended =
     [FsReadFile ''package.json'', Mount [(''package.json'', FileNode manifest_dev_text)],
      FsRm ''package-lock.json'',
      Spawn ''npm'' [''install'', ''--no-optional'', ''--legacy-peer-deps'']] \<and>
   sandboxCalls
     (snd (setupContainer ext_installing props_normal preview_live preview_suspended)) =
     [FsReadFile ''package.json'', Mount [(''package.json'', FileNode manifest_dev_text)],
      FsRm ''package-lock.json'',
      Spawn ''npm'' [''install'', ''--no-optional'', ''--legacy-peer-deps''],
      FsReadFile ''package.json'', Mount [(''package.json'', FileNode manifest_dev_text)],
      FsRm ''package-lock.json'',
      Spawn ''npm'' [''install'', ''--no-optional'', ''--legacy-peer-deps'']] \<and>
   fst (setupContainer ext_mount_undefined props_normal preview_live preview_live) =
     Threw (Error ''Cannot read properties of null'') \<and>
   isSetupInProgress
     (snd (setupContainer ext_mount_undefined props_normal preview_live preview_live)) \<and>
   \<not> isSetupComplete
     (snd (setupContainer ext_mount_undefined props_normal preview_live preview_live))"
proof -
  have w: "\<not> isSetupInProgress preview_live" "\<not> isSetupComplete preview_live"
    "sandboxCalls preview_live = []"
    by (simp_all add: preview_live_def WebContainerPreview_initial_def)
  have p: "instanceProp props_normal = Some (WebContainer 1)" "\<not> parentLoading props_normal"
    "\<not> forceResetup props_normal"
    by (simp_all add: props_normal_def)
  have run: "fst (setupContainer ext_installing props_normal preview_live v) = Awaiting \<and>
      isSetupInProgress (snd (setupContainer ext_installing props_normal preview_live v)) \<and>
      sandboxCalls (snd (setupContainer ext_installing props_normal preview_live v)) =
        sandboxCalls v @
        [FsReadFile ''package.json'', Mount [(''package.json'', FileNode manifest_dev_text)],
         FsRm ''package-lock.json'',
         Spawn ''npm'' [''install'', ''--no-optional'', ''--legacy-peer-deps'']]" for v
    using w p
    by (simp add: setupContainer_def setup_body_def setup_mount_def setup_install_def
        detect_reconnect_def ext_installing_def ext_fresh_def ref_writeToTerminal_eq
        fold_ref_writeToTerminal_eq Let_def)
  have thrown: "fst (setupContainer ext_mount_undefined props_normal preview_live preview_live) =
       Threw (Error ''Cannot read properties of null'') \<and>
     isSetupInProgress
       (snd (setupContainer ext_mount_undefined props_normal preview_live preview_live)) \<and>
     \<not> isSetupComplete
       (snd (setupContainer ext_mount_undefined props_normal preview_live preview_live))"
    using w p
    by (simp add: setupContainer_def setup_body_def setup_mount_def setup_catch_def
        detect_reconnect_def ext_mount_undefined_def ext_fresh_def ref_writeToTerminal_eq Let_def)
  from run [of preview_live] run [of preview_suspended] thrown w
  show ?thesis by (simp add: preview_suspended_def)
qed

subsection \<open>Forced reset\<close>

text \<open>
  Claim C5. With \<^verbatim>\<open>forceResetup\<close> true the first effect clears the preview url and the
  error and resets the step to 0 and both setup flags; the reconnect branch is not taken
  whatever the first read of the manifest settled with; and the run that follows on the
  reset state, when each stage succeeds, makes the mount, spawns the installation and
  spawns the run script, in this order, and ends complete at step 4.
\<close>

theorem forced_reset_reprovisions:
  assumes "forceResetup props" and "instanceProp props = Some i" and "\<not> parentLoading props"
    and "readFile_detect ext \<noteq> Pending"
    and "transformToWebContainerFormat ext (templateData props) = Inr files"
    and "mount_answer ext = Resolved ()" and "rm_answer ext \<noteq> Pending"
    and "spawn_install ext = Resolved ()" and "install_exit ext = Resolved 0"
    and "start_command ext = Some (cmd, warned)" and "spawn_start ext = Resolved ()"
  shows "previewUrl (reset_effect props w) = [] \<and>
         currentStep (reset_effect props w) = 0 \<and>
         \<not> isSetupComplete (reset_effect props w) \<and>
         \<not> isSetupInProgress (reset_effect props w) \<and>
         internalError (reset_effect props w) = None \<and>
         detect_reconnect ext props = Some False \<and>
         fst (setupContainer ext props (reset_effect props w) (reset_effect props w)) = Returned \<and>
         sandboxCalls (snd (setupContainer ext props (reset_effect props w) (reset_effect props w))) =
           sandboxCalls w @
             [FsReadFile ''package.json'', Mount files, FsRm ''package-lock.json'',
              Spawn ''npm'' [''install'', ''--no-optional'', ''--legacy-peer-deps''],
              FsReadFile ''package.json'', Spawn ''npm'' [''run'', cmd],
              OnServerReady StartListener] \<and>
         currentStep (snd (setupContainer ext props (reset_effect props w) (reset_effect props w))) = 4 \<and>
         isSetupComplete (snd (setupContainer ext props (reset_effect props w) (reset_effect props w))) \<and>
         previewUrl (snd (setupContainer ext props (reset_effect props w) (reset_effect props w))) = []"
proof -
  have d: "detect_reconnect ext props = Some False"
    using assms(1,4) by (cases "readFile_detect ext") (simp_all add: detect_reconnect_def)
  have r: "previewUrl (reset_effect props w) = [] \<and> currentStep (reset_effect props w) = 0 \<and>
           \<not> isSetupComplete (reset_effect props w) \<and> \<not> isSetupInProgress (reset_effect props w) \<and>
           internalError (reset_effect props w) = None \<and>
           sandboxCalls (reset_effect props w) = sandboxCalls w"
    using assms(1) by (simp add: reset_effect_def)
  have "fst (setupContainer ext props (reset_effect props w) (reset_effect props w)) = Returned \<and>
         sandboxCalls (snd (setupContainer ext props (reset_effect props w) (reset_effect props w))) =
           sandboxCalls (reset_effect props w) @
             [FsReadFile ''package.json'', Mount files, FsRm ''package-lock.json'',
              Spawn ''npm'' [''install'', ''--no-optional'', ''--legacy-peer-deps''],
              FsReadFile ''package.json'', Spawn ''npm'' [''run'', cmd],
              OnServerReady StartListener] \<and>
         currentStep (snd (setupContainer ext props (reset_effect props w) (reset_effect props w))) = 4 \<and>
         isSetupComplete (snd (setupContainer ext props (reset_effect props w) (reset_effect props w))) \<and>
         previewUrl (snd (setupContainer ext props (reset_effect props w) (reset_effect props w))) = []"
    using assms(2,3,5-11) d r
    by (cases "rm_answer ext")
       (simp_all add: setupContainer_def setup_body_def setup_mount_def setup_install_def
          setup_start_def ref_writeToTerminal_eq fold_ref_writeToTerminal_eq Let_def)
  with d r show ?thesis by simp
qed

text \<open>The theorem at a preview that was serving a url, over a sandbox that already
  holds a manifest.\<close>

theorem forced_reset_reprovisions_witness:
  "forceResetup props_reset \<and> instanceProp props_reset = Some (WebContainer 1) \<and>
   \<not> parentLoading props_reset \<and>
   previewUrl preview_served = ''http://localhost:5173'' \<and> isSetupComplete preview_served \<and>
   previewUrl (reset_effect props_reset preview_served) = [] \<and>
   currentStep (reset_effect props_reset preview_served) = 0 \<and>
   sandboxCalls
     (snd (setupContainer (ext_fresh\<lparr>readFile_detect := Resolved ''{}''\<rparr>) props_reset
             (reset_effect props_reset preview_served)
             (reset_effect props_reset preview_served))) =
     [FsReadFile ''package.json'', Mount [(''package.json'', FileNode manifest_dev_text)],
      FsRm ''package-lock.json'',
      Spawn ''npm'' [''install'', ''--no-optional'', ''--legacy-peer-deps''],
      FsReadFile ''package.json'', Spawn ''npm'' [''run'', ''dev''],
      OnServerReady StartListener]"
proof -
  let ?ext = "ext_fresh\<lparr>readFile_detect := Resolved ''{}''\<rparr>"
  have p: "forceResetup props_reset" "instanceProp props_reset = Some (WebContainer 1)"
    "\<not> parentLoading props_reset"
    by (simp_all add: props_reset_def props_normal_def)
  have e: "readFile_detect ?ext \<noteq> Pending"
    "transformToWebContainerFormat ?ext (templateData props_reset) =
       Inr [(''package.json'', FileNode manifest_dev_text)]"
    "mount_answer ?ext = Resolved ()" "rm_answer ?ext \<noteq> Pending"
    "spawn_install ?ext = Resolved ()" "install_exit ?ext = Resolved 0"
    "start_command ?ext = Some (''dev'', False)" "spawn_start ?ext = Resolved ()"
    by (simp_all add: ext_fresh_def start_command_def scripts_dev_def parse_known_def
        manifest_dev_def)
  have w: "previewUrl preview_served = ''http://localhost:5173''" "isSetupComplete preview_served"
    "sandboxCalls preview_served = []"
    by (simp_all add: preview_served_def WebContainerPreview_initial_def)
  from forced_reset_reprovisions [OF p e, of preview_served] p w
  show ?thesis by simp
qed

subsection \<open>The run script\<close>

text \<open>
  Claim C6, as the code has it. If the manifest is read and parsed and its \<^verbatim>\<open>scripts.dev\<close>
  member is truthy, the command is \<^verbatim>\<open>dev\<close>, without a warning. If the manifest is read and
  parsed to a value other than \<^verbatim>\<open>null\<close> and that member is absent or falsy, the command
  is \<^verbatim>\<open>start\<close>, without a warning. If the read rejects, the text does not parse or it
  parses to \<^verbatim>\<open>null\<close>, the command is \<^verbatim>\<open>start\<close> and the warning is written. In each case
  the start stage goes on to spawn \<^verbatim>\<open>npm run\<close> with the chosen command, and it throws
  only what that spawn rejects with.
\<close>

theorem start_command_choice:
  "(readFile_start ext = Resolved raw \<and> JSON_parse ext raw = Inr pkg \<and>
      dev_script_of pkg = Some d \<and> truthy d \<longrightarrow>
        start_command ext = Some (''dev'', False)) \<and>
   (readFile_start ext = Resolved raw \<and> JSON_parse ext raw = Inr pkg \<and> pkg \<noteq> JNull \<and>
      (dev_script_of pkg = None \<or> dev_script_of pkg = Some d \<and> \<not> truthy d) \<longrightarrow>
        start_command ext = Some (''start'', False)) \<and>
   (readFile_start ext = Rejected e \<or>
    readFile_start ext = Resolved raw \<and> JSON_parse ext raw = Inl e \<or>
    readFile_start ext = Resolved raw \<and> JSON_parse ext raw = Inr JNull \<longrightarrow>
        start_command ext = Some (''start'', True)) \<and>
   (start_command ext = Some (cmd, warned) \<longrightarrow>
        (cmd = ''dev'' \<or> cmd = ''start'') \<and>
        sandboxCalls (snd (setup_start ext w)) =
          sandboxCalls w @ [FsReadFile ''package.json'', Spawn ''npm'' [''run'', cmd]] @
            (if spawn_start ext = Resolved () then [OnServerReady StartListener] else []) \<and>
        terminalRef_current (snd (setup_start ext w)) =
          map_option
            (fold writeToTerminal ((if warned then [msg_no_scripts] else []) @ [msg_starting cmd]))
            (terminalRef_current w) \<and>
        (fst (setup_start ext w) = Threw x \<longrightarrow> spawn_start ext = Rejected x))"
proof -
  have a: "readFile_start ext = Resolved raw \<and> JSON_parse ext raw = Inr pkg \<and>
      dev_script_of pkg = Some d \<and> truthy d \<Longrightarrow> start_command ext = Some (''dev'', False)"
    using scripts_dev_eq [of pkg] by (cases "pkg = JNull") (auto simp: start_command_def)
  have b: "readFile_start ext = Resolved raw \<and> JSON_parse ext raw = Inr pkg \<and> pkg \<noteq> JNull \<and>
      (dev_script_of pkg = None \<or> dev_script_of pkg = Some d \<and> \<not> truthy d) \<Longrightarrow>
        start_command ext = Some (''start'', False)"
    using scripts_dev_eq [of pkg] by (auto simp: start_command_def)
  have c: "readFile_start ext = Rejected e \<or>
    readFile_start ext = Resolved raw \<and> JSON_parse ext raw = Inl e \<or>
    readFile_start ext = Resolved raw \<and> JSON_parse ext raw = Inr JNull \<Longrightarrow>
        start_command ext = Some (''start'', True)"
    by (auto simp: start_command_def scripts_dev_def)
  have d1: "start_command ext = Some (cmd, warned) \<Longrightarrow> cmd = ''dev'' \<or> cmd = ''start''"
    by (auto simp: start_command_def split: settled.splits sum.splits if_splits)
  have d2: "start_command ext = Some (cmd, warned) \<Longrightarrow>
        sandboxCalls (snd (setup_start ext w)) =
          sandboxCalls w @ [FsReadFile ''package.json'', Spawn ''npm'' [''run'', cmd]] @
            (if spawn_start ext = Resolved () then [OnServerReady StartListener] else [])"
    by (cases "spawn_start ext") (simp_all add: setup_start_def ref_writeToTerminal_eq Let_def)
  have d3: "start_command ext = Some (cmd, warned) \<Longrightarrow>
        terminalRef_current (snd (setup_start ext w)) =
          map_option
            (fold writeToTerminal ((if warned then [msg_no_scripts] else []) @ [msg_starting cmd]))
            (terminalRef_current w)"
    by (cases "spawn_start ext")
       (simp_all add: setup_start_def ref_writeToTerminal_eq Let_def option.map_comp comp_def)
  have d4: "start_command ext = Some (cmd, warned) \<Longrightarrow> fst (setup_start ext w) = Threw x \<Longrightarrow>
        spawn_start ext = Rejected x"
    by (cases "spawn_start ext") (simp_all add: setup_start_def ref_writeToTerminal_eq Let_def)
  from a b c d1 d2 d3 d4 show ?thesis by blast
qed

text \<open>The theorem at a manifest with a \<^verbatim>\<open>dev\<close> script, at one with a \<^verbatim>\<open>start\<close> script
  only, and at a manifest that cannot be read.\<close>

theorem start_command_choice_witness:
  "readFile_start ext_fresh = Resolved manifest_dev_text \<and>
   JSON_parse ext_fresh manifest_dev_text = Inr manifest_dev \<and>
   dev_script_of manifest_dev = Some (JString ''vite'') \<and> truthy (JString ''vite'') \<and>
   start_command ext_fresh = Some (''dev'', False) \<and>
   JSON_parse ext_fresh manifest_start_text = Inr manifest_start \<and>
   dev_script_of manifest_start = None \<and>
   start_command (ext_fresh\<lparr>readFile_start := Resolved manifest_start_text\<rparr>) =
     Some (''start'', False) \<and>
   start_command (ext_fresh\<lparr>readFile_start := Rejected (Error ''ENOENT'')\<rparr>) =
     Some (''start'', True) \<and>
   sandboxCalls (snd (setup_start ext_fresh (WebContainerPreview_initial None))) =
     [FsReadFile ''package.json'', Spawn ''npm'' [''run'', ''dev''], OnServerReady StartListener] \<and>
   sandboxCalls (snd (setup_start (ext_fresh\<lparr>readFile_start := Rejected (Error ''ENOENT'')\<rparr>)
                        (WebContainerPreview_initial None))) =
     [FsReadFile ''package.json'', Spawn ''npm'' [''run'', ''start''], OnServerReady StartListener] \<and>
   fst (setup_start (ext_fresh\<lparr>readFile_start := Rejected (Error ''ENOENT'')\<rparr>)
          (WebContainerPreview_initial None)) = Returned"
proof -
  let ?e2 = "ext_fresh\<lparr>readFile_start := Resolved manifest_start_text\<rparr>"
  let ?e3 = "ext_fresh\<lparr>readFile_start := Rejected (Error ''ENOENT'')\<rparr>"
  let ?w = "WebContainerPreview_initial None"
  have h1: "readFile_start ext_fresh = Resolved manifest_dev_text"
    "JSON_parse ext_fresh manifest_dev_text = Inr manifest_dev"
    "dev_script_of manifest_dev = Some (JString ''vite'')" "truthy (JString ''vite'')"
    "spawn_start ext_fresh = Resolved ()"
    by (simp_all add: ext_fresh_def manifest_dev_def parse_known_def)
  have ne: "manifest_start_text \<noteq> manifest_dev_text"
    by (simp add: manifest_start_text_def manifest_dev_text_def quoted_def)
  have h2: "readFile_start ?e2 = Resolved manifest_start_text"
    "JSON_parse ?e2 manifest_start_text = Inr manifest_start"
    "JSON_parse ext_fresh manifest_start_text = Inr manifest_start"
    "manifest_start \<noteq> JNull" "dev_script_of manifest_start = None"
    using ne by (simp_all add: ext_fresh_def parse_known_def manifest_start_def)
  have h3: "readFile_start ?e3 = Rejected (Error ''ENOENT'')" "spawn_start ?e3 = Resolved ()"
    by (simp_all add: ext_fresh_def)
  have w: "sandboxCalls ?w = []" by (simp add: WebContainerPreview_initial_def)
  have r: "fst (setup_start ?e3 ?w) = Returned"
    by (simp add: setup_start_def start_command_def ext_fresh_def ref_writeToTerminal_eq Let_def)
  note a = start_command_choice [of ext_fresh manifest_dev_text manifest_dev "JString ''vite''"
      "Error ''x''" "''dev''" False ?w "Error ''x''"]
  note b = start_command_choice [of ?e2 manifest_start_text manifest_start "JString ''vite''"
      "Error ''x''" "''start''" False ?w "Error ''x''"]
  note c = start_command_choice [of ?e3 manifest_dev_text manifest_dev "JString ''vite''"
      "Error ''ENOENT''" "''start''" True ?w "Error ''x''"]
  from a h1 have a1: "start_command ext_fresh = Some (''dev'', False)" by blast
  from b h2 have b1: "start_command ?e2 = Some (''start'', False)" by blast
  from c h3 have c1: "start_command ?e3 = Some (''start'', True)" by blast
  from a a1 h1 w have a2: "sandboxCalls (snd (setup_start ext_fresh ?w)) =
     [FsReadFile ''package.json'', Spawn ''npm'' [''run'', ''dev''], OnServerReady StartListener]"
    by simp
  from c c1 h3 w have c2: "sandboxCalls (snd (setup_start ?e3 ?w)) =
     [FsReadFile ''package.json'', Spawn ''npm'' [''run'', ''start''], OnServerReady StartListener]"
    by simp
  from h1 h2 a1 b1 c1 a2 c2 r show ?thesis by blast
qed

text \<open>
  Claim C6 as stated fails for a manifest that defines a \<^verbatim>\<open>dev\<close> script with an empty
  command: the member is there, its value is falsy, and \<^verbatim>\<open>npm run start\<close> is spawned.
\<close>

theorem start_command_empty_dev_counterexample:
  "readFile_start (ext_fresh\<lparr>readFile_start := Resolved manifest_empty_dev_text\<rparr>) =
     Resolved manifest_empty_dev_text \<and>
   JSON_parse (ext_fresh\<lparr>readFile_start := Resolved manifest_empty_dev_text\<rparr>)
     manifest_empty_dev_text = Inr manifest_empty_dev \<and>
   dev_script_of manifest_empty_dev = Some (JString []) \<and>
   start_command (ext_fresh\<lparr>readFile_start := Resolved manifest_empty_dev_text\<rparr>) =
     Some (''start'', False) \<and>
   sandboxCalls (snd (setup_start (ext_fresh\<lparr>readFile_start := Resolved manifest_empty_dev_text\<rparr>)
                        (WebContainerPreview_initial None))) =
     [FsReadFile ''package.json'', Spawn ''npm'' [''run'', ''start''], OnServerReady StartListener]"
proof -
  have ne: "manifest_empty_dev_text \<noteq> manifest_dev_text"
    "manifest_empty_dev_text \<noteq> manifest_start_text"
    by (simp_all add: manifest_empty_dev_text_def manifest_dev_text_def manifest_start_text_def
        quoted_def)
  then show ?thesis
    by (simp add: ext_fresh_def parse_known_def manifest_empty_dev_def start_command_def
        scripts_dev_def setup_start_def ref_writeToTerminal_eq WebContainerPreview_initial_def
        Let_def)
qed

end
